theory Spec2Isabelle
  imports Complex_Main
begin

section \<open>The classification process pool (classifier.py)\<close>

text \<open>
  \<^verbatim>\<open>FeatureExtractionClassifierProcessPool\<close> keeps a list of process dictionaries
  \<^verbatim>\<open>dict(process=..., input=mp.Queue(1), output=mp.Queue(1), running=False)\<close>.
  A queue of capacity one is modelled by an option: \<open>None\<close> is the empty queue
  (\<^verbatim>\<open>empty()\<close> holds), \<open>Some x\<close> the full one (\<^verbatim>\<open>full()\<close> holds).
  The process handle is only read by \<^verbatim>\<open>start\<close>, \<^verbatim>\<open>end\<close> and the debug prints and
  is left out; the pool's other attributes (\<^verbatim>\<open>_running\<close>, \<^verbatim>\<open>_pool_size\<close>) are never
  written after construction. The item put into an input queue is the tuple
  \<^verbatim>\<open>(skel_time_window, feature_id)\<close>, the item in an output queue the tuple
  \<^verbatim>\<open>(last_prob, feature_id)\<close>; the first component of the latter is an option because
  \<^verbatim>\<open>get_result\<close> answers \<^verbatim>\<open>(None, 0)\<close> when nothing is ready.
\<close>

record ('i, 'o) process =
  input_q :: "'i option"
  output_q :: "'o option"
  running :: bool

type_synonym ('i, 'o) process_pool = "('i, 'o) process list"

text \<open>\<^verbatim>\<open>initiate_pool\<close>: \<^verbatim>\<open>for i in range(pool_size)\<close> appends one fresh dictionary; a
  negative size gives the empty list.\<close>

definition initiate_pool :: "int \<Rightarrow> ('i, 'o) process_pool" where
  "initiate_pool pool_size =
     replicate (nat pool_size) \<lparr>input_q = None, output_q = None, running = False\<rparr>"

text \<open>
  \<^verbatim>\<open>pass_time_window\<close>: one pass over the list, leaving at the first \<^verbatim>\<open>break\<close>.
  \<^verbatim>\<open>
  for process in self._process_pool:
      if not process["running"]:
          if process["input"].empty():
              process["input"].put(skel_time_window)
              process["running"] = True
              break
      elif process["input"].empty() and process["output"].full():
          process["input"].put(skel_time_window)
          break
  \<close>
  Every \<^verbatim>\<open>put\<close> is guarded by \<^verbatim>\<open>empty()\<close>, so it never blocks.
\<close>

fun pass_time_window :: "('i, 'o) process_pool \<Rightarrow> 'i \<Rightarrow> ('i, 'o) process_pool" where
  "pass_time_window [] w = []"
| "pass_time_window (p # ps) w =
     (if \<not> running p then
        (if input_q p = None then p\<lparr>input_q := Some w, running := True\<rparr> # ps
         else p # pass_time_window ps w)
      else if input_q p = None \<and> output_q p \<noteq> None then p\<lparr>input_q := Some w\<rparr> # ps
      else p # pass_time_window ps w)"

text \<open>
  \<^verbatim>\<open>get_result\<close>:
  \<^verbatim>\<open>
  result = (None, 0)
  for process in self._process_pool:
      if process["output"].full():
          result = process["output"].get()
          break
  return result
  \<close>
  The model returns the result and the pool after the call.
\<close>

fun get_result :: "('i, 'r option \<times> int) process_pool
    \<Rightarrow> ('r option \<times> int) \<times> ('i, 'r option \<times> int) process_pool" where
  "get_result [] = ((None, 0), [])"
| "get_result (p # ps) =
     (case output_q p of
        Some r \<Rightarrow> (r, p\<lparr>output_q := None\<rparr> # ps)
      | None \<Rightarrow> (case get_result ps of (r, ps') \<Rightarrow> (r, p # ps')))"

text \<open>The two conditions under which \<^verbatim>\<open>pass_time_window\<close> hands the item to a
  process: the first-input branch and the finished-process branch.\<close>

definition first_input :: "('i, 'o) process \<Rightarrow> bool" where
  "first_input p = (\<not> running p \<and> input_q p = None)"

definition finished :: "('i, 'o) process \<Rightarrow> bool" where
  "finished p = (running p \<and> input_q p = None \<and> output_q p \<noteq> None)"

text \<open>What the chosen process looks like afterwards.\<close>

definition feed :: "'i \<Rightarrow> ('i, 'o) process \<Rightarrow> ('i, 'o) process" where
  "feed w p = (if \<not> running p then p\<lparr>input_q := Some w, running := True\<rparr>
               else p\<lparr>input_q := Some w\<rparr>)"


text \<open>
  The worker \<^verbatim>\<open>simba_feat_classifier_pool_run(input_q, output_q)\<close> runs in its own
  process:
  \<^verbatim>\<open>
  while True:
      skel_time_window = None
      feature_id = 0
      if input_q.full():
          skel_time_window, feature_id = input_q.get()
      if skel_time_window is not None:
          features = feature_extractor.extract_features(skel_time_window)
          last_prob = classifier.classify(features)
          output_q.put((last_prob, feature_id))
  \<close>
  One iteration that finds an item is two atomic steps on the process's queues: the
  \<^verbatim>\<open>get\<close>, after which the worker holds the computed pair, and the \<^verbatim>\<open>put\<close>, which
  waits until the output queue is empty. What the worker holds between the two is its
  local state (\<open>None\<close> when it is polling). Feature extraction followed by
  classification is the parameter \<open>classify\<close>.

  The triggers put the tuple \<^verbatim>\<open>(self._time_window, self._feature_id)\<close> into the input
  queue: the tuple holds the trigger's deque itself, not a copy of it.
  \<^verbatim>\<open>multiprocessing.Queue.put\<close> appends the tuple to a buffer and returns; a feeder
  thread of the queue pickles it afterwards, and \<^verbatim>\<open>get\<close> in the worker's process waits
  for the pickled bytes. So the window of an item in an input queue is either still the
  live deque (\<open>Live_deque\<close>: the worker will receive what the deque holds when the feeder
  runs) or the content that the feeder has pickled (\<open>Pickled w\<close>).
\<close>

datatype 'w window_item = Live_deque | Pickled 'w

text \<open>The feeder thread's step on the input queue of a process; \<open>w\<close> is what the deque
  holds at that moment.\<close>

definition queue_feed ::
    "'w \<Rightarrow> ('w window_item \<times> int, 'o) process \<Rightarrow> ('w window_item \<times> int, 'o) process" where
  "queue_feed w p =
     (case input_q p of
        Some (Live_deque, feature_id) \<Rightarrow> p\<lparr>input_q := Some (Pickled w, feature_id)\<rparr>
      | _ \<Rightarrow> p)"

definition pool_run_get :: "('w \<Rightarrow> 'r) \<Rightarrow>
    ('w window_item \<times> int, 'r option \<times> int) process \<times> ('r option \<times> int) option \<Rightarrow>
    ('w window_item \<times> int, 'r option \<times> int) process \<times> ('r option \<times> int) option" where
  "pool_run_get classify = (\<lambda>(p, holding).
     (case holding of
        Some h \<Rightarrow> (p, holding)
      | None \<Rightarrow>
          (case input_q p of
             None \<Rightarrow> (p, holding)
           | Some (Live_deque, feature_id) \<Rightarrow> (p, holding)
           | Some (Pickled skel_time_window, feature_id) \<Rightarrow>
               (p\<lparr>input_q := None\<rparr>, Some (Some (classify skel_time_window), feature_id)))))"

definition pool_run_put ::
    "('i, 'o) process \<times> 'o option \<Rightarrow> ('i, 'o) process \<times> 'o option" where
  "pool_run_put = (\<lambda>(p, holding).
     (case holding of
        None \<Rightarrow> (p, holding)
      | Some h \<Rightarrow>
          (case output_q p of
             Some old \<Rightarrow> (p, holding)
           | None \<Rightarrow> (p\<lparr>output_q := Some h\<rparr>, None))))"

section \<open>The behaviour classifier triggers (triggers.py)\<close>

text \<open>Python exceptions the modelled methods can raise.\<close>

datatype py_error = IndexError | KeyError | AttributeError | UnboundLocalError

text \<open>\<^verbatim>\<open>collections.deque(maxlen=n)\<close>: \<^verbatim>\<open>append\<close> adds on the right and, when the
  deque is then longer than \<^verbatim>\<open>maxlen\<close>, drops the leftmost entry; \<^verbatim>\<open>appendleft\<close>
  is its mirror image.\<close>

definition deque_append :: "nat \<Rightarrow> 'a list \<Rightarrow> 'a \<Rightarrow> 'a list" where
  "deque_append maxlen d x = (let d' = d @ [x] in if maxlen < length d' then tl d' else d')"

definition deque_appendleft :: "nat \<Rightarrow> 'a list \<Rightarrow> 'a \<Rightarrow> 'a list" where
  "deque_appendleft maxlen d x =
     (let d' = x # d in if maxlen < length d' then butlast d' else d')"

text \<open>The response body \<^verbatim>\<open>{"plot": {"text": dict(text=..., org=..., color=...)}}\<close>.
  The formatted strings are kept as the format that was chosen and its argument.\<close>

record 't text_plot =
  plot_text :: 't
  plot_org :: "int \<times> int"
  plot_color :: "int \<times> int \<times> int"

datatype 'p simba_text = Current_probability 'p | Motif_matched 'p

subsection \<open>SimbaThresholdBehaviorPoolTrigger\<close>

text \<open>
  The attributes set by \<^verbatim>\<open>__init__\<close>. The pool object \<^verbatim>\<open>_process_pool\<close> is passed
  to the methods next to the trigger; \<^verbatim>\<open>_skeleton\<close> is never read. The time window is
  \<^verbatim>\<open>deque(maxlen=TIME_WINDOW)\<close>, oldest entry first. Probabilities are values of any
  type with an order (\<^verbatim>\<open>float\<close> in the source: only \<^verbatim>\<open><=\<close> is applied to them).
\<close>

record ('p, 'v) simba_trigger =
  trigger_threshold :: 'p
  last_prob :: 'p
  feature_id :: int
  center :: "(int \<times> int) option"
  debug :: bool
  time_window_len :: nat
  time_window :: "'v list list"

definition SimbaThresholdBehaviorPoolTrigger ::
    "nat \<Rightarrow> 'p::zero \<Rightarrow> bool \<Rightarrow> ('p, 'v) simba_trigger" where
  "SimbaThresholdBehaviorPoolTrigger TIME_WINDOW prob_threshold dbg =
     \<lparr>trigger_threshold = prob_threshold, last_prob = 0, feature_id = 0, center = None,
      debug = dbg, time_window_len = TIME_WINDOW, time_window = []\<rparr>"

text \<open>
  \<^verbatim>\<open>fill_time_window\<close>: the skeleton is a dictionary (here the list of its items in
  key order); the keys \<^verbatim>\<open>"0_tail_tip"\<close> and \<^verbatim>\<open>"1_tail_tip"\<close> are removed,
  \<^verbatim>\<open>transform_2pose(...).flatten()\<close> (of \<^verbatim>\<open>utils.poser\<close>, a parameter here) gives the
  flat row, which is padded with zeros to 28 entries and appended to the deque.
\<close>

definition flat_values :: "((string \<times> 'c) list \<Rightarrow> 'v list) \<Rightarrow> (string \<times> 'c) list \<Rightarrow> 'v::zero list" where
  "flat_values transform_2pose skeleton =
     (let skeleton_selection =
            filter (\<lambda>(k, v). k \<notin> {''0_tail_tip'', ''1_tail_tip''}) skeleton;
          flat = transform_2pose skeleton_selection
      in if length flat < 28 then flat @ replicate (28 - length flat) 0 else flat)"

definition fill_time_window :: "((string \<times> 'c) list \<Rightarrow> 'v list) \<Rightarrow>
    ('p, 'v::zero) simba_trigger \<Rightarrow> (string \<times> 'c) list \<Rightarrow> ('p, 'v) simba_trigger" where
  "fill_time_window transform_2pose self skeleton =
     self\<lparr>time_window :=
       deque_append (time_window_len self) (time_window self)
         (flat_values transform_2pose skeleton)\<rparr>"

text \<open>
  \<^verbatim>\<open>check_skeleton(skeleton, target_prob=None)\<close>. The pool is the object handed to the
  constructor; its two methods are the parameters \<open>pass_tw\<close> and \<open>get_res\<close>
  (for \<^verbatim>\<open>FeatSimbaProcessPool\<close> they are \<open>pass_time_window\<close> and \<open>get_result\<close>
  above). The tuple given to \<^verbatim>\<open>pass_time_window\<close> holds the deque \<^verbatim>\<open>self._time_window\<close>
  itself, which \<^verbatim>\<open>fill_time_window\<close> changes again on the next frame: the item is
  \<open>(Live_deque, feature_id)\<close>, and the content of the deque is the trigger's
  \<open>time_window\<close> at the time it is read. The model returns the response, the trigger
  and the pool.
  \<^verbatim>\<open>
  self.fill_time_window(skeleton)
  if len(self._time_window) == self._time_window_len:
      self._feature_id += 1
      self._process_pool.pass_time_window((self._time_window, self._feature_id), ...)
  result, feature_id = self._process_pool.get_result(debug=self._debug)
  if result is not None:
      self._last_prob = result
  if target_prob is not None:
      self._trigger_threshold = target_prob
  self._center = (50, 50)
  result = False
  text = "Current probability: {:.2f}".format(self._last_prob)
  if self._trigger_threshold <= self._last_prob:
      result = True
      text = "Motif matched: {:.2f}".format(self._last_prob)
  color = (0, 255, 0) if result else (0, 0, 255)
  response_body = {"plot": {"text": dict(text=text, org=self._center, color=color)}}
  return (result, response_body)
  \<close>
\<close>

definition check_skeleton :: "((string \<times> 'c) list \<Rightarrow> 'v list) \<Rightarrow>
    ('pool \<Rightarrow> 'v list list window_item \<times> int \<Rightarrow> 'pool) \<Rightarrow> ('pool \<Rightarrow> ('p option \<times> int) \<times> 'pool) \<Rightarrow>
    ('p::ord, 'v::zero) simba_trigger \<Rightarrow> 'pool \<Rightarrow> (string \<times> 'c) list \<Rightarrow> 'p option \<Rightarrow>
    (bool \<times> 'p simba_text text_plot) \<times> ('p, 'v) simba_trigger \<times> 'pool" where
  "check_skeleton transform_2pose pass_tw get_res self pool skeleton target_prob =
     (let self = fill_time_window transform_2pose self skeleton;
          (self, pool) =
            (if length (time_window self) = time_window_len self then
               (let self = self\<lparr>feature_id := feature_id self + 1\<rparr>
                in (self, pass_tw pool (Live_deque, feature_id self)))
             else (self, pool));
          ((result, fid), pool) = get_res pool;
          self = (case result of Some r \<Rightarrow> self\<lparr>last_prob := r\<rparr> | None \<Rightarrow> self);
          self = (case target_prob of Some t \<Rightarrow> self\<lparr>trigger_threshold := t\<rparr> | None \<Rightarrow> self);
          self = self\<lparr>center := Some (50, 50)\<rparr>;
          (result, text) =
            (if trigger_threshold self \<le> last_prob self
             then (True, Motif_matched (last_prob self))
             else (False, Current_probability (last_prob self)));
          color = (if result then (0, 255, 0) else (0, 0, 255))
      in ((result, \<lparr>plot_text = text, plot_org = (50, 50), plot_color = color\<rparr>), self, pool))"


text \<open>A pool that also records every item \<^verbatim>\<open>pass_time_window\<close> is called with, whether
  a process takes it or not: the process pool next to the list of the items offered so
  far.\<close>

definition logged_pass :: "('i, 'o) process_pool \<times> 'i list \<Rightarrow> 'i \<Rightarrow> ('i, 'o) process_pool \<times> 'i list" where
  "logged_pass = (\<lambda>(pool, offered) w. (pass_time_window pool w, offered @ [w]))"

definition logged_get :: "('i, 'r option \<times> int) process_pool \<times> 'i list \<Rightarrow>
    ('r option \<times> int) \<times> ('i, 'r option \<times> int) process_pool \<times> 'i list" where
  "logged_get = (\<lambda>(pool, offered).
     (case get_result pool of (r, pool') \<Rightarrow> (r, (pool', offered))))"

text \<open>
  The states a trigger, its pool and the pool's workers can reach: from a new trigger and
  a new pool, by calls of \<^verbatim>\<open>check_skeleton\<close> and by the workers' steps, in any order.
  A state is the trigger, the pool, what each worker holds, and the items offered so far.
  A call of \<^verbatim>\<open>check_skeleton\<close> is one step, and so is each queue operation of a worker
  and each run of an input queue's feeder thread, which pickles the window with the
  content the trigger's deque has at that time. A queue counts as full and not empty from
  the return of \<^verbatim>\<open>put\<close> to the return of \<^verbatim>\<open>get\<close>.
\<close>

inductive reachable :: "((string \<times> 'c) list \<Rightarrow> 'v list) \<Rightarrow> ('v list list \<Rightarrow> 'p) \<Rightarrow>
    ('p::{ord,zero}, 'v::zero) simba_trigger \<times>
    ('v list list window_item \<times> int, 'p option \<times> int) process_pool \<times>
    ('p option \<times> int) option list \<times> ('v list list window_item \<times> int) list \<Rightarrow> bool"
  for transform_2pose :: "(string \<times> 'c) list \<Rightarrow> 'v list" and classify :: "'v list list \<Rightarrow> 'p"
where
  start: "reachable transform_2pose classify
      (SimbaThresholdBehaviorPoolTrigger TIME_WINDOW prob_threshold dbg,
       initiate_pool pool_size, replicate (nat pool_size) None, [])"
| frame: "reachable transform_2pose classify (self, pool, holding, offered) \<Longrightarrow>
    check_skeleton transform_2pose logged_pass logged_get self (pool, offered) skeleton
        target_prob = (response, self', pool', offered') \<Longrightarrow>
    reachable transform_2pose classify (self', pool', holding, offered')"
| feeder: "reachable transform_2pose classify (self, pool, holding, offered) \<Longrightarrow>
    i < length pool \<Longrightarrow>
    reachable transform_2pose classify
      (self, pool[i := queue_feed (time_window self) (pool ! i)], holding, offered)"
| worker_get: "reachable transform_2pose classify (self, pool, holding, offered) \<Longrightarrow>
    i < length pool \<Longrightarrow> pool_run_get classify (pool ! i, holding ! i) = (p', h') \<Longrightarrow>
    reachable transform_2pose classify (self, pool[i := p'], holding[i := h'], offered)"
| worker_put: "reachable transform_2pose classify (self, pool, holding, offered) \<Longrightarrow>
    i < length pool \<Longrightarrow> pool_run_put (pool ! i, holding ! i) = (p', h') \<Longrightarrow>
    reachable transform_2pose classify (self, pool[i := p'], holding[i := h'], offered)"

text \<open>The feature ids a process holds in its queues lie between 1 and \<open>k\<close>, and what
  its output queue holds is a result, not \<^verbatim>\<open>None\<close>; the same for what a worker holds
  between its \<^verbatim>\<open>get\<close> and its \<^verbatim>\<open>put\<close>.\<close>

definition ids_within :: "int \<Rightarrow> ('w \<times> int, 'r option \<times> int) process \<Rightarrow> bool" where
  "ids_within k p =
     ((case input_q p of None \<Rightarrow> True | Some (w, n) \<Rightarrow> 1 \<le> n \<and> n \<le> k) \<and>
      (case output_q p of None \<Rightarrow> True | Some (r, n) \<Rightarrow> r \<noteq> None \<and> 1 \<le> n \<and> n \<le> k))"

definition held_within :: "int \<Rightarrow> ('r option \<times> int) option \<Rightarrow> bool" where
  "held_within k h =
     (case h of None \<Rightarrow> True | Some (r, n) \<Rightarrow> r \<noteq> None \<and> 1 \<le> n \<and> n \<le> k)"

subsection \<open>BsoidClassBehaviorPoolTrigger\<close>

text \<open>
  \<^verbatim>\<open>_trigger\<close> is the list of target classes (\<^verbatim>\<open>check_skeleton\<close> takes its \<^verbatim>\<open>len\<close>),
  \<^verbatim>\<open>_last_result\<close> a sequence of labels whose entry 0 is compared, initially \<^verbatim>\<open>[-1]\<close>.
  The time window is \<^verbatim>\<open>deque(maxlen=int(np.ceil(FRAMERATE / 10 * 2)))\<close>, newest entry
  first.
\<close>

record 'v bsoid_trigger =
  b_trigger :: "int list"
  b_last_result :: "int list"
  b_feature_id :: int
  b_center :: "(int \<times> int) option"
  b_debug :: bool
  b_time_window_len :: nat
  b_time_window :: "'v list"

definition BsoidClassBehaviorPoolTrigger :: "nat \<Rightarrow> int list \<Rightarrow> bool \<Rightarrow> 'v bsoid_trigger" where
  "BsoidClassBehaviorPoolTrigger FRAMERATE target_class dbg =
     \<lparr>b_trigger = target_class, b_last_result = [-1], b_feature_id = 0, b_center = None,
      b_debug = dbg, b_time_window_len = nat \<lceil>real FRAMERATE / 10 * 2\<rceil>,
      b_time_window = []\<rparr>"

datatype bsoid_text = Current_Class "int list" | Motif_matched_class "int list"

definition bsoid_fill_time_window ::
    "('s \<Rightarrow> 'v) \<Rightarrow> 'v bsoid_trigger \<Rightarrow> 's \<Rightarrow> 'v bsoid_trigger" where
  "bsoid_fill_time_window transform_2pose self skeleton =
     self\<lparr>b_time_window :=
       deque_appendleft (b_time_window_len self) (b_time_window self)
         (transform_2pose skeleton)\<rparr>"

text \<open>
  The loop that decides:
  \<^verbatim>\<open>
  for trigger in range(0, len(self._trigger)):
      if self._last_result[0] == self._trigger[trigger]:
          result = True
          text = "Motif matched: {}".format(self._last_result)
  \<close>
  \<^verbatim>\<open>self._last_result[0]\<close> raises \<^verbatim>\<open>IndexError\<close> on an empty sequence.
\<close>

fun match_trigger :: "int list \<Rightarrow> int list \<Rightarrow> bool \<Rightarrow> py_error + bool" where
  "match_trigger last_result [] result = Inr result"
| "match_trigger last_result (t # ts) result =
     (case last_result of
        [] \<Rightarrow> Inl IndexError
      | l # ls \<Rightarrow> match_trigger last_result ts (if l = t then True else result))"

text \<open>
  \<^verbatim>\<open>check_skeleton(skeleton, target_class=None)\<close>; the pool's result is the list of
  label arrays the classifier returned, one per feature block, and
  \<^verbatim>\<open>self._last_result = clf_result[0]\<close> raises \<^verbatim>\<open>IndexError\<close> when that list is empty.
  A call that raises returns no response; the model does not keep the state it leaves.
  As in the other trigger, the tuple given to \<^verbatim>\<open>pass_time_window\<close> holds the deque
  itself: the item is \<open>(Live_deque, feature_id)\<close>.
  \<^verbatim>\<open>
  self.fill_time_window(skeleton)
  if len(self._time_window) == self._time_window_len:
      self._feature_id += 1
      self._process_pool.pass_time_window((self._time_window, self._feature_id), ...)
  clf_result, feature_id = self._process_pool.get_result(debug=self._debug)
  if clf_result is not None:
      self._last_result = clf_result[0]
  if target_class is not None:
      self._trigger = target_class
  self._center = (50,50)
  result = False
  text = "Current Class: {}".format(self._last_result)
  for trigger in range(0, len(self._trigger)): ...
  color = (0, 255, 0) if result else (0, 0, 255)
  response_body = {"plot": {"text": dict(text=text, org=self._center, color=color)}}
  return (result, response_body)
  \<close>
\<close>

definition bsoid_check_skeleton :: "('s \<Rightarrow> 'v) \<Rightarrow>
    ('pool \<Rightarrow> 'v list window_item \<times> int \<Rightarrow> 'pool) \<Rightarrow>
    ('pool \<Rightarrow> (int list list option \<times> int) \<times> 'pool) \<Rightarrow>
    'v bsoid_trigger \<Rightarrow> 'pool \<Rightarrow> 's \<Rightarrow> int list option \<Rightarrow>
    py_error + ((bool \<times> bsoid_text text_plot) \<times> 'v bsoid_trigger \<times> 'pool)" where
  "bsoid_check_skeleton transform_2pose pass_tw get_res self pool skeleton target_class =
     (let self = bsoid_fill_time_window transform_2pose self skeleton;
          (self, pool) =
            (if length (b_time_window self) = b_time_window_len self then
               (let self = self\<lparr>b_feature_id := b_feature_id self + 1\<rparr>
                in (self, pass_tw pool (Live_deque, b_feature_id self)))
             else (self, pool));
          ((clf_result, fid), pool) = get_res pool
      in case (case clf_result of
                 None \<Rightarrow> Inr self
               | Some [] \<Rightarrow> Inl IndexError
               | Some (labels # rest) \<Rightarrow> Inr (self\<lparr>b_last_result := labels\<rparr>)) of
           Inl e \<Rightarrow> Inl e
         | Inr self \<Rightarrow>
            (let self = (case target_class of Some t \<Rightarrow> self\<lparr>b_trigger := t\<rparr> | None \<Rightarrow> self);
                 self = self\<lparr>b_center := Some (50, 50)\<rparr>
             in case match_trigger (b_last_result self) (b_trigger self) False of
                  Inl e \<Rightarrow> Inl e
                | Inr result \<Rightarrow>
                   (let text = (if result then Motif_matched_class (b_last_result self)
                                else Current_Class (b_last_result self));
                        color = (if result then (0, 255, 0) else (0, 0, 255))
                    in Inr ((result, \<lparr>plot_text = text, plot_org = (50, 50), plot_color = color\<rparr>),
                            self, pool))))"

section \<open>The posture triggers (triggers.py)\<close>

text \<open>A skeleton is a dictionary from body part names to coordinate pairs; a missing key
  raises \<^verbatim>\<open>KeyError\<close>.\<close>

type_synonym skeleton = "string \<rightharpoonup> real \<times> real"

subsection \<open>HeaddirectionTrigger and EgoHeaddirectionTrigger\<close>

text \<open>
  \<^verbatim>\<open>angle_between_vectors\<close> (of \<^verbatim>\<open>utils.analysis\<close>) is a parameter: it takes six
  coordinates and returns a direction name and an angle. The response body of a call that
  returns is \<^verbatim>\<open>{"angle": true_angle}\<close>: in the debug branch the dictionary is never built,
  because \<^verbatim>\<open>org=skeleton[self._end_point]\<close> reads an attribute that neither class sets.
\<close>

type_synonym angle_between_vectors =
  "real \<Rightarrow> real \<Rightarrow> real \<Rightarrow> real \<Rightarrow> real \<Rightarrow> real \<Rightarrow> string \<times> real"

datatype angle_body = Angle real

record headdirection_trigger =
  hd_point :: "real \<times> real"
  hd_angle :: real
  hd_debug :: bool

definition HeaddirectionTrigger :: "real \<Rightarrow> real \<times> real \<Rightarrow> bool \<Rightarrow> headdirection_trigger" where
  "HeaddirectionTrigger angle point dbg = \<lparr>hd_point = point, hd_angle = angle, hd_debug = dbg\<rparr>"

text \<open>
  \<^verbatim>\<open>
  ret_head_dir, angle = angle_between_vectors(
      *skeleton["neck"], *skeleton["nose"], *self._point)
  true_angle = abs(angle)
  if true_angle <= self._angle:
      result = True
  else:
      result = False
  color = (0, 255, 0) if result else (0, 0, 255)
  if self._debug:
      center = skeleton["nose"]
      response_body = {"plot": {"text": dict(text=str(true_angle),
                                             org=skeleton[self._end_point], ...), ...}}
  else:
      response_body = {"angle": true_angle}
  return (result, response_body)
  \<close>
\<close>

definition headdirection_check_skeleton :: "angle_between_vectors \<Rightarrow>
    headdirection_trigger \<Rightarrow> skeleton \<Rightarrow> py_error + bool \<times> angle_body" where
  "headdirection_check_skeleton abv self skeleton =
     (case skeleton ''neck'' of
        None \<Rightarrow> Inl KeyError
      | Some (neck_x, neck_y) \<Rightarrow>
         (case skeleton ''nose'' of
            None \<Rightarrow> Inl KeyError
          | Some (nose_x, nose_y) \<Rightarrow>
             (let (ret_head_dir, angle) =
                    abv neck_x neck_y nose_x nose_y (fst (hd_point self)) (snd (hd_point self));
                  true_angle = \<bar>angle\<bar>;
                  result = (true_angle \<le> hd_angle self)
              in if hd_debug self then Inl AttributeError
                 else Inr (result, Angle true_angle))))"

record ego_headdirection_trigger =
  ego_head_dir :: string
  ego_angle :: real
  ego_debug :: bool

definition EgoHeaddirectionTrigger :: "real \<Rightarrow> string \<Rightarrow> bool \<Rightarrow> ego_headdirection_trigger" where
  "EgoHeaddirectionTrigger angle head_dir dbg =
     \<lparr>ego_head_dir = head_dir, ego_angle = angle, ego_debug = dbg\<rparr>"

text \<open>
  \<^verbatim>\<open>
  tailroot_x, tailroot_y = skeleton["tailroot"]
  neck_x, neck_y = skeleton["neck"]
  nose_x, nose_y = skeleton["nose"]
  ret_head_dir, angle = angle_between_vectors(
      tailroot_x, tailroot_y, neck_x, neck_y, nose_x, nose_y)
  true_angle = 180 - abs(angle)
  if true_angle <= self._angle:
      if self._head_dir == ret_head_dir:
          result = True
      elif self._head_dir == "both":
          result = True
  else:
      result = False
  color = (0, 255, 0) if result else (0, 0, 255)
  if self._debug: ...   # as in HeaddirectionTrigger
  else:
      response_body = {"angle": true_angle}
  return (result, response_body)
  \<close>
  The local \<^verbatim>\<open>result\<close> is an option: it stays unassigned when the angle is met and the
  direction is neither the returned one nor \<^verbatim>\<open>"both"\<close>, and reading it then raises
  \<^verbatim>\<open>UnboundLocalError\<close>.
\<close>

definition ego_headdirection_check_skeleton :: "angle_between_vectors \<Rightarrow>
    ego_headdirection_trigger \<Rightarrow> skeleton \<Rightarrow> py_error + bool \<times> angle_body" where
  "ego_headdirection_check_skeleton abv self skeleton =
     (case skeleton ''tailroot'' of
        None \<Rightarrow> Inl KeyError
      | Some (tailroot_x, tailroot_y) \<Rightarrow>
     (case skeleton ''neck'' of
        None \<Rightarrow> Inl KeyError
      | Some (neck_x, neck_y) \<Rightarrow>
     (case skeleton ''nose'' of
        None \<Rightarrow> Inl KeyError
      | Some (nose_x, nose_y) \<Rightarrow>
         (let (ret_head_dir, angle) = abv tailroot_x tailroot_y neck_x neck_y nose_x nose_y;
              true_angle = 180 - \<bar>angle\<bar>;
              result =
                (if true_angle \<le> ego_angle self then
                   (if ego_head_dir self = ret_head_dir then Some True
                    else if ego_head_dir self = ''both'' then Some True
                    else None)
                 else Some False)
          in case result of
               None \<Rightarrow> Inl UnboundLocalError
             | Some result \<Rightarrow>
                 if ego_debug self then Inl AttributeError
                 else Inr (result, Angle true_angle)))))"

subsection \<open>RegionTrigger and OutsideTrigger\<close>

text \<open>
  The region classes \<^verbatim>\<open>EllipseROI\<close> and \<^verbatim>\<open>RectangleROI\<close> (of \<^verbatim>\<open>utils.analysis\<close>) are
  parameters: each builds, from a center and two radii, an object with the methods the
  trigger calls.
\<close>

record roi =
  check_point :: "real \<Rightarrow> real \<Rightarrow> bool"
  get_center :: "real \<times> real"
  get_x_radius :: real
  get_box :: "real \<times> real \<times> real \<times> real"

type_synonym roi_class = "real \<times> real \<Rightarrow> real \<Rightarrow> real \<Rightarrow> roi"

text \<open>\<^verbatim>\<open>bodyparts\<close> is a list of joints (\<^verbatim>\<open>isinstance(self._bodyparts, list)\<close>) or one
  joint.\<close>

datatype bodyparts = Joint string | Joints "string list"

record region_trigger =
  roi_type :: string
  region_of_interest :: roi
  bodyparts :: bodyparts
  region_debug :: bool

text \<open>\<^verbatim>\<open>str.lower\<close> on the bytes of the string: the letters A to Z are mapped to a to z.
  No other character is lowered to a letter of \<^verbatim>\<open>"circle"\<close> or \<^verbatim>\<open>"square"\<close>.\<close>

definition lower :: "string \<Rightarrow> string" where
  "lower s = map (\<lambda>c. if c \<in> set ''ABCDEFGHIJKLMNOPQRSTUVWXYZ''
                       then char_of (of_char c + (32::nat)) else c) s"

text \<open>
  \<^verbatim>\<open>
  self._roi_type = region_type.lower()
  region_types = {"circle": EllipseROI, "square": RectangleROI}
  self._region_of_interest = region_types[self._roi_type](center, radius, radius)
  self._bodyparts = bodyparts
  self._debug = debug
  \<close>
\<close>

definition RegionTrigger :: "roi_class \<Rightarrow> roi_class \<Rightarrow> string \<Rightarrow> real \<times> real \<Rightarrow> real \<Rightarrow>
    bodyparts \<Rightarrow> bool \<Rightarrow> py_error + region_trigger" where
  "RegionTrigger EllipseROI RectangleROI region_type roi_center radius parts dbg =
     (let rt = lower region_type
      in if rt = ''circle'' then
           Inr \<lparr>roi_type = rt, region_of_interest = EllipseROI roi_center radius radius,
                bodyparts = parts, region_debug = dbg\<rparr>
         else if rt = ''square'' then
           Inr \<lparr>roi_type = rt, region_of_interest = RectangleROI roi_center radius radius,
                bodyparts = parts, region_debug = dbg\<rparr>
         else Inl KeyError)"

text \<open>\<^verbatim>\<open>OutsideTrigger.__init__\<close> only calls \<^verbatim>\<open>super().__init__\<close> with its arguments.\<close>

definition OutsideTrigger :: "roi_class \<Rightarrow> roi_class \<Rightarrow> string \<Rightarrow> real \<times> real \<Rightarrow> real \<Rightarrow>
    bodyparts \<Rightarrow> bool \<Rightarrow> py_error + region_trigger" where
  "OutsideTrigger EllipseROI RectangleROI region_type roi_center radius parts dbg =
     RegionTrigger EllipseROI RectangleROI region_type roi_center radius parts dbg"

text \<open>\<^verbatim>\<open>int(x)\<close> of a finite float truncates towards zero.\<close>

definition py_int :: "real \<Rightarrow> int" where
  "py_int x = (if 0 \<le> x then \<lfloor>x\<rfloor> else \<lceil>x\<rceil>)"

datatype region_body =
    Circle_plot "real \<times> real" int "int \<times> int \<times> int"
  | Square_plot "real \<times> real" "real \<times> real" "int \<times> int \<times> int"

text \<open>The loop over a list of joints: every joint is looked up and checked before
  \<^verbatim>\<open>any(results)\<close> is taken.\<close>

fun check_joints :: "roi \<Rightarrow> skeleton \<Rightarrow> string list \<Rightarrow> py_error + bool list" where
  "check_joints r skeleton [] = Inr []"
| "check_joints r skeleton (part # parts) =
     (case skeleton part of
        None \<Rightarrow> Inl KeyError
      | Some (bp_x, bp_y) \<Rightarrow>
         (case check_joints r skeleton parts of
            Inl e \<Rightarrow> Inl e
          | Inr results \<Rightarrow> Inr (check_point r bp_x bp_y # results)))"

text \<open>
  \<^verbatim>\<open>
  if isinstance(self._bodyparts, list):
      results = []
      for part in self._bodyparts:
          bp_x, bp_y = skeleton[part]
          results.append(self._region_of_interest.check_point(bp_x, bp_y))
      result = any(results)
  else:
      bp_x, bp_y = skeleton[self._bodyparts]
      result = self._region_of_interest.check_point(bp_x, bp_y)
  color = (0, 255, 0) if result else (0, 0, 255)
  if self._roi_type == "circle":
      response_body = {"plot": {"circle": dict(center=..get_center(),
                          radius=int(..get_x_radius()), color=color)}}
  elif self._roi_type == "square":
      box = self._region_of_interest.get_box()
      x1, y1, x2, y2 = box
      pt1 = (x1, y2)
      pt2 = (x2, y1)
      response_body = {"plot": {"square": dict(pt1=pt1, pt2=pt2, color=color)}}
  response = (result, response_body)
  return response
  \<close>
\<close>

definition region_check_skeleton ::
    "region_trigger \<Rightarrow> skeleton \<Rightarrow> py_error + bool \<times> region_body" where
  "region_check_skeleton self skeleton =
     (case (case bodyparts self of
              Joints parts \<Rightarrow>
                (case check_joints (region_of_interest self) skeleton parts of
                   Inl e \<Rightarrow> Inl e
                 | Inr results \<Rightarrow> Inr (list_ex (\<lambda>b. b) results))
            | Joint part \<Rightarrow>
                (case skeleton part of
                   None \<Rightarrow> Inl KeyError
                 | Some (bp_x, bp_y) \<Rightarrow> Inr (check_point (region_of_interest self) bp_x bp_y))) of
        Inl e \<Rightarrow> Inl e
      | Inr result \<Rightarrow>
         (let color = (if result then (0, 255, 0) else (0, 0, 255))
          in if roi_type self = ''circle'' then
               Inr (result, Circle_plot (get_center (region_of_interest self))
                              (py_int (get_x_radius (region_of_interest self))) color)
             else if roi_type self = ''square'' then
               (case get_box (region_of_interest self) of
                  (x1, y1, x2, y2) \<Rightarrow> Inr (result, Square_plot (x1, y2) (x2, y1) color))
             else Inl UnboundLocalError))"

text \<open>
  \<^verbatim>\<open>
  result, response_body = super().check_skeleton(skeleton)
  response = (not result, response_body)  # flips result bool
  return response
  \<close>
\<close>

definition outside_check_skeleton ::
    "region_trigger \<Rightarrow> skeleton \<Rightarrow> py_error + bool \<times> region_body" where
  "outside_check_skeleton self skeleton =
     (case region_check_skeleton self skeleton of
        Inl e \<Rightarrow> Inl e
      | Inr (result, response_body) \<Rightarrow> Inr (\<not> result, response_body))"

section \<open>Properties of the process pool\<close>

subsection \<open>Dispatch\<close>

lemma pass_time_window_length: "length (pass_time_window pool w) = length pool"
  by (induction pool) auto

lemma pass_time_window_none:
  "\<forall>p \<in> set pool. \<not> first_input p \<and> \<not> finished p \<Longrightarrow> pass_time_window pool w = pool"
  by (induction pool) (auto simp: first_input_def finished_def)

lemma pass_time_window_first:
  "i < length pool \<Longrightarrow> first_input (pool ! i) \<or> finished (pool ! i) \<Longrightarrow>
   \<forall>j < i. \<not> first_input (pool ! j) \<and> \<not> finished (pool ! j) \<Longrightarrow>
   pass_time_window pool w = pool[i := feed w (pool ! i)]"
proof (induction pool arbitrary: i)
  case Nil
  then show ?case by simp
next
  case (Cons p ps)
  show ?case
  proof (cases i)
    case 0
    with Cons.prems show ?thesis
      by (auto simp: first_input_def finished_def feed_def)
  next
    case (Suc k)
    from Cons.prems(3) Suc have p: "\<not> first_input p \<and> \<not> finished p"
      by auto
    have "\<forall>j < k. \<not> first_input (ps ! j) \<and> \<not> finished (ps ! j)"
      using Cons.prems(3) Suc by auto
    with Cons.IH [of k] Cons.prems(1,2) Suc
    have "pass_time_window ps w = ps[k := feed w (ps ! k)]"
      by simp
    with p Suc show ?thesis
      by (auto simp: first_input_def finished_def)
  qed
qed


lemma pass_time_window_fed_prefix:
  "\<forall>p \<in> set us. running p \<and> input_q p \<noteq> None \<Longrightarrow>
   pass_time_window (us @ \<lparr>input_q = None, output_q = None, running = False\<rparr> # rest) w =
   us @ \<lparr>input_q = Some w, output_q = None, running = True\<rparr> # rest"
  by (induction us) auto

lemma foldl_pass_time_window_fresh:
  "length ws \<le> k \<Longrightarrow>
   foldl pass_time_window
     (map (\<lambda>w. \<lparr>input_q = Some w, output_q = None :: 'o option, running = True\<rparr>) us @
      replicate k \<lparr>input_q = None, output_q = None, running = False\<rparr>) ws =
   map (\<lambda>w. \<lparr>input_q = Some w, output_q = None, running = True\<rparr>) (us @ ws) @
   replicate (k - length ws) \<lparr>input_q = None, output_q = None, running = False\<rparr>"
proof (induction ws arbitrary: us k)
  case Nil
  then show ?case by simp
next
  case (Cons w ws)
  then obtain k' where k: "k = Suc k'" and le: "length ws \<le> k'"
    by (cases k) auto
  have "pass_time_window
     (map (\<lambda>w. \<lparr>input_q = Some w, output_q = None :: 'o option, running = True\<rparr>) us @
      \<lparr>input_q = None, output_q = None, running = False\<rparr> #
      replicate k' \<lparr>input_q = None, output_q = None, running = False\<rparr>) w =
     map (\<lambda>w. \<lparr>input_q = Some w, output_q = None, running = True\<rparr>) (us @ [w]) @
     replicate k' \<lparr>input_q = None, output_q = None, running = False\<rparr>"
    by (subst pass_time_window_fed_prefix) auto
  with Cons.IH [OF le, of "us @ [w]"] k show ?case
    by simp
qed

lemma pass_time_window_saturated:
  "pass_time_window (map (\<lambda>w. \<lparr>input_q = Some w, output_q = None, running = True\<rparr>) ws) w =
   map (\<lambda>w. \<lparr>input_q = Some w, output_q = None, running = True\<rparr>) ws"
  by (rule pass_time_window_none) (auto simp: first_input_def finished_def)

subsection \<open>Saturation\<close>

text \<open>
  Claim C2. A new pool of size \<open>N\<close> whose workers take nothing and from which nothing is
  collected: offering at most \<open>N\<close> windows one after the other puts the k-th window into
  the input queue of process k through the first-input branch (the process is marked
  running), and leaves the later processes as new. After exactly \<open>N\<close> windows every input
  queue is full, and one more call of \<^verbatim>\<open>pass_time_window\<close> returns the pool as it is:
  no queue, no flag and no process changes, and the model has no error value to return.
\<close>

theorem saturation_silent_drop:
  "(length ws \<le> nat N \<longrightarrow>
      foldl pass_time_window (initiate_pool N :: ('i, 'o) process_pool) ws =
        map (\<lambda>w. \<lparr>input_q = Some w, output_q = None, running = True\<rparr>) ws @
        replicate (nat N - length ws) \<lparr>input_q = None, output_q = None, running = False\<rparr>) \<and>
   (length ws = nat N \<longrightarrow>
      foldl pass_time_window (initiate_pool N :: ('i, 'o) process_pool) ws =
        map (\<lambda>w. \<lparr>input_q = Some w, output_q = None, running = True\<rparr>) ws \<and>
      pass_time_window (foldl pass_time_window (initiate_pool N :: ('i, 'o) process_pool) ws) w =
        foldl pass_time_window (initiate_pool N :: ('i, 'o) process_pool) ws)"
  using foldl_pass_time_window_fresh [of ws "nat N" "[]"] pass_time_window_saturated [of ws w]
  by (auto simp: initiate_pool_def)

theorem saturation_silent_drop_witness:
  "foldl pass_time_window (initiate_pool 2 :: (nat, nat) process_pool) [10, 20] =
     [\<lparr>input_q = Some 10, output_q = None :: nat option, running = True\<rparr>,
      \<lparr>input_q = Some 20, output_q = None, running = True\<rparr>] \<and>
   pass_time_window (foldl pass_time_window (initiate_pool 2 :: (nat, nat) process_pool) [10, 20]) 30 =
     [\<lparr>input_q = Some 10, output_q = None :: nat option, running = True\<rparr>,
      \<lparr>input_q = Some 20, output_q = None, running = True\<rparr>]"
  using saturation_silent_drop [of "[10, 20 :: nat]" 2 30, where ?'o = nat]
  by simp

subsection \<open>The order of dispatch\<close>

text \<open>
  Claim C1, as the code has it. \<^verbatim>\<open>pass_time_window\<close> makes one pass in list order and
  tests both branches on each process before it moves on: the item goes to the first
  process that is either not yet running with an empty input queue (it is then marked
  running) or running with an empty input queue and a full output queue, and only that
  process changes. When no process is in one of the two conditions the pool is returned
  unchanged.
\<close>

theorem dispatch_single_pass:
  "((\<forall>p \<in> set pool. \<not> first_input p \<and> \<not> finished p) \<longrightarrow> pass_time_window pool w = pool) \<and>
   (i < length pool \<and> (first_input (pool ! i) \<or> finished (pool ! i)) \<and>
    (\<forall>j < i. \<not> first_input (pool ! j) \<and> \<not> finished (pool ! j)) \<longrightarrow>
      pass_time_window pool w = pool[i := feed w (pool ! i)] \<and>
      feed w (pool ! i) =
        (if first_input (pool ! i) then (pool ! i)\<lparr>input_q := Some w, running := True\<rparr>
         else (pool ! i)\<lparr>input_q := Some w\<rparr>))"
  using pass_time_window_none [of pool w] pass_time_window_first [of i pool w]
  by (auto simp: feed_def first_input_def finished_def)

theorem dispatch_single_pass_witness:
  "pass_time_window
     [\<lparr>input_q = Some (1::nat), output_q = None :: nat option, running = True\<rparr>,
      \<lparr>input_q = None, output_q = Some 5, running = True\<rparr>,
      \<lparr>input_q = None, output_q = None, running = False\<rparr>] 7 =
     [\<lparr>input_q = Some 1, output_q = None, running = True\<rparr>,
      \<lparr>input_q = Some 7, output_q = Some 5, running = True\<rparr>,
      \<lparr>input_q = None, output_q = None, running = False\<rparr>]"
  using dispatch_single_pass [of
     "[\<lparr>input_q = Some (1::nat), output_q = None :: nat option, running = True\<rparr>,
      \<lparr>input_q = None, output_q = Some 5, running = True\<rparr>,
      \<lparr>input_q = None, output_q = None, running = False\<rparr>]" 7 1]
  by (simp add: first_input_def finished_def feed_def less_Suc_eq)

text \<open>
  Claim C1 as stated gives the first-input branch priority over the whole pool. The pool
  below has a finished process at index 0 and a process that was never fed at index 1;
  the item goes to index 0, and the process at index 1 stays unfed.
\<close>

theorem warm_up_priority_counterexample:
  "pass_time_window
     [\<lparr>input_q = None, output_q = Some (5::nat), running = True\<rparr>,
      \<lparr>input_q = None, output_q = None, running = False\<rparr>] (7::nat) =
     [\<lparr>input_q = Some 7, output_q = Some 5, running = True\<rparr>,
      \<lparr>input_q = None, output_q = None, running = False\<rparr>] \<and>
   pass_time_window
     [\<lparr>input_q = None, output_q = Some (5::nat), running = True\<rparr>,
      \<lparr>input_q = None, output_q = None, running = False\<rparr>] (7::nat) \<noteq>
     [\<lparr>input_q = None, output_q = Some 5, running = True\<rparr>,
      \<lparr>input_q = Some 7, output_q = None, running = True\<rparr>]"
  by simp

subsection \<open>Collecting\<close>

lemma get_result_none:
  "\<forall>p \<in> set pool. output_q p = None \<Longrightarrow> get_result pool = ((None, 0), pool)"
  by (induction pool) auto

lemma get_result_first:
  "i < length pool \<Longrightarrow> output_q (pool ! i) = Some r \<Longrightarrow> \<forall>j < i. output_q (pool ! j) = None \<Longrightarrow>
   get_result pool = (r, pool[i := (pool ! i)\<lparr>output_q := None\<rparr>])"
proof (induction pool arbitrary: i)
  case Nil
  then show ?case by simp
next
  case (Cons p ps)
  show ?case
  proof (cases i)
    case 0
    with Cons.prems show ?thesis by simp
  next
    case (Suc k)
    from Cons.prems(3) Suc have p: "output_q p = None"
      by auto
    have "\<forall>j < k. output_q (ps ! j) = None"
      using Cons.prems(3) Suc by auto
    with Cons.IH [of k] Cons.prems(1,2) Suc
    have "get_result ps = (r, ps[k := (ps ! k)\<lparr>output_q := None\<rparr>])"
      by simp
    with p Suc show ?thesis by simp
  qed
qed

text \<open>
  Claim C3. When no output queue is full, \<^verbatim>\<open>get_result\<close> returns \<^verbatim>\<open>(None, 0)\<close> and
  the pool unchanged, so a second call gives the same again. Otherwise it returns the
  content of the first full output queue in list order, that queue is empty afterwards,
  and no other process changes: one result per call, and none is returned twice.
\<close>

theorem collect_first_full:
  "((\<forall>p \<in> set pool. output_q p = None) \<longrightarrow>
      get_result pool = ((None, 0), pool) \<and>
      get_result (snd (get_result pool)) = ((None, 0), pool)) \<and>
   (i < length pool \<and> output_q (pool ! i) = Some r \<and> (\<forall>j < i. output_q (pool ! j) = None) \<longrightarrow>
      get_result pool = (r, pool[i := (pool ! i)\<lparr>output_q := None\<rparr>]) \<and>
      output_q (snd (get_result pool) ! i) = None \<and>
      (\<forall>j. j \<noteq> i \<longrightarrow> snd (get_result pool) ! j = pool ! j))"
  using get_result_none [of pool] get_result_first [of i pool r]
  by auto

theorem collect_first_full_witness:
  "get_result
     [\<lparr>input_q = Some (1::nat), output_q = None, running = True\<rparr>,
      \<lparr>input_q = None, output_q = Some (Some (2::nat), 4), running = True\<rparr>,
      \<lparr>input_q = None, output_q = Some (Some 3, 5), running = True\<rparr>] =
     ((Some 2, 4),
      [\<lparr>input_q = Some 1, output_q = None, running = True\<rparr>,
       \<lparr>input_q = None, output_q = None, running = True\<rparr>,
       \<lparr>input_q = None, output_q = Some (Some 3, 5), running = True\<rparr>]) \<and>
   get_result [\<lparr>input_q = Some (1::nat), output_q = None :: (nat option \<times> int) option, running = True\<rparr>] =
     ((None, 0), [\<lparr>input_q = Some 1, output_q = None, running = True\<rparr>])"
  using collect_first_full [of
     "[\<lparr>input_q = Some (1::nat), output_q = None, running = True\<rparr>,
      \<lparr>input_q = None, output_q = Some (Some (2::nat), 4), running = True\<rparr>,
      \<lparr>input_q = None, output_q = Some (Some 3, 5), running = True\<rparr>]" 1 "(Some 2, 4)"]
    collect_first_full [of
     "[\<lparr>input_q = Some (1::nat), output_q = None :: (nat option \<times> int) option, running = True\<rparr>]" 0 "(None, 0)"]
  by (simp add: less_Suc_eq)

section \<open>Properties of SimbaThresholdBehaviorPoolTrigger\<close>

text \<open>One call of \<^verbatim>\<open>check_skeleton\<close>, written out in terms of the trigger before the
  call.\<close>

lemma check_skeleton_eq:
  "check_skeleton t2p pass_tw get_res self pool skeleton target_prob =
     (let w = deque_append (time_window_len self) (time_window self) (flat_values t2p skeleton);
          full = (length w = time_window_len self);
          n = (if full then feature_id self + 1 else feature_id self);
          pool1 = (if full then pass_tw pool (Live_deque, feature_id self + 1) else pool);
          prob = (case fst (fst (get_res pool1)) of Some r \<Rightarrow> r | None \<Rightarrow> last_prob self);
          thr = (case target_prob of Some t \<Rightarrow> t | None \<Rightarrow> trigger_threshold self)
      in ((thr \<le> prob,
           \<lparr>plot_text = (if thr \<le> prob then Motif_matched prob else Current_probability prob),
            plot_org = (50, 50),
            plot_color = (if thr \<le> prob then (0, 255, 0) else (0, 0, 255))\<rparr>),
          self\<lparr>trigger_threshold := thr, last_prob := prob, feature_id := n,
               center := Some (50, 50), time_window := w\<rparr>,
          snd (get_res pool1)))"
  by (simp add: check_skeleton_def fill_time_window_def Let_def
        split: prod.splits option.splits)

subsection \<open>The decision\<close>

text \<open>
  Claim C6. The boolean a call returns is true exactly when the cached probability, as
  it stands after this call's \<^verbatim>\<open>get_result\<close>, is greater than or equal to the
  threshold. A target probability given with the call replaces the configured threshold
  before the comparison, and the trigger keeps it: a later call without a target
  probability compares with the same value.
\<close>

theorem threshold_decision:
  "(case check_skeleton t2p pass_tw get_res self pool skeleton target_prob of
      ((result, response_body), self', pool') \<Rightarrow>
        result = (last_prob self' \<ge> trigger_threshold self') \<and>
        trigger_threshold self' =
          (case target_prob of Some t \<Rightarrow> t | None \<Rightarrow> trigger_threshold self) \<and>
        (case check_skeleton t2p pass_tw get_res self' pool' skeleton' None of
           ((result', response_body'), self'', pool'') \<Rightarrow>
             trigger_threshold self'' = trigger_threshold self' \<and>
             result' = (last_prob self'' \<ge> trigger_threshold self')))"
  by (simp add: check_skeleton_eq Let_def split: prod.splits option.splits)

theorem threshold_decision_witness:
  "fst (fst (check_skeleton (\<lambda>sk. []) pass_time_window get_result
     \<lparr>trigger_threshold = 1 / 2, last_prob = 1 / 4, feature_id = 5, center = None,
      debug = False, time_window_len = 3, time_window = [] :: nat list list\<rparr>
     [\<lparr>input_q = None, output_q = Some (Some (3 / 4 :: real), 2), running = True\<rparr>]
     ([] :: (string \<times> unit) list) None)) = True \<and>
   fst (fst (check_skeleton (\<lambda>sk. []) pass_time_window get_result
     \<lparr>trigger_threshold = 1 / 2, last_prob = 1 / 4, feature_id = 5, center = None,
      debug = False, time_window_len = 3, time_window = [] :: nat list list\<rparr>
     [\<lparr>input_q = None, output_q = Some (Some (3 / 4 :: real), 2), running = True\<rparr>]
     ([] :: (string \<times> unit) list) (Some (9 / 10)))) = False"
  using threshold_decision [where ?t2p.0 = "\<lambda>sk. []" and pass_tw = pass_time_window
     and get_res = get_result and self =
     "\<lparr>trigger_threshold = 1 / 2, last_prob = 1 / 4, feature_id = 5, center = None,
      debug = False, time_window_len = 3, time_window = [] :: nat list list\<rparr>"
     and pool = "[\<lparr>input_q = None, output_q = Some (Some (3 / 4 :: real), 2), running = True\<rparr>]"
     and skeleton = "[] :: (string \<times> unit) list" and target_prob = None and skeleton' = "[]"]
   threshold_decision [where ?t2p.0 = "\<lambda>sk. []" and pass_tw = pass_time_window
     and get_res = get_result and self =
     "\<lparr>trigger_threshold = 1 / 2, last_prob = 1 / 4, feature_id = 5, center = None,
      debug = False, time_window_len = 3, time_window = [] :: nat list list\<rparr>"
     and pool = "[\<lparr>input_q = None, output_q = Some (Some (3 / 4 :: real), 2), running = True\<rparr>]"
     and skeleton = "[] :: (string \<times> unit) list" and target_prob = "Some (9 / 10)"
     and skeleton' = "[]"]
  by (simp add: check_skeleton_eq flat_values_def deque_append_def Let_def)

subsection \<open>Collecting into the cache\<close>

text \<open>
  Claim C4, as the code has it. After the window is filled and, when it is full, offered
  to the pool, the call collects once. A result that is not \<^verbatim>\<open>None\<close> replaces
  \<^verbatim>\<open>_last_prob\<close> without any comparison; with \<^verbatim>\<open>None\<close> the cached value stays. The
  decision compares the threshold with the cached value after that. The feature id that
  comes back with the result is a local of the call and is not stored: the trigger after
  the call is the trigger before it with the window, the dispatch counter, the cached
  probability, the threshold and the center updated, and none of them depends on
  \<open>collected_id\<close>.
\<close>

theorem collect_overwrites_last_prob:
  assumes "w = deque_append (time_window_len self) (time_window self) (flat_values t2p skeleton)"
      and "pool1 = (if length w = time_window_len self
                    then pass_tw pool (Live_deque, feature_id self + 1) else pool)"
      and "get_res pool1 = ((result, collected_id), pool2)"
      and "check_skeleton t2p pass_tw get_res self pool skeleton target_prob =
             ((decision, response_body), self', pool')"
  shows "self' = self\<lparr>time_window := w,
           feature_id := (if length w = time_window_len self then feature_id self + 1
                          else feature_id self),
           last_prob := (case result of Some r \<Rightarrow> r | None \<Rightarrow> last_prob self),
           trigger_threshold :=
             (case target_prob of Some t \<Rightarrow> t | None \<Rightarrow> trigger_threshold self),
           center := Some (50, 50)\<rparr> \<and>
         pool' = pool2 \<and>
         decision = (trigger_threshold self' \<le> last_prob self')"
  using assms
  by (cases "length w = time_window_len self") (auto simp: check_skeleton_eq Let_def)

theorem collect_overwrites_last_prob_witness:
  "check_skeleton (\<lambda>sk. []) pass_time_window get_result
     \<lparr>trigger_threshold = 1 / 2, last_prob = 1 / 4, feature_id = 5, center = None,
      debug = False, time_window_len = 3, time_window = []\<rparr>
     [\<lparr>input_q = None, output_q = Some (Some (3 / 4 :: real), 2), running = True\<rparr>]
     ([] :: (string \<times> unit) list) None =
   ((True, \<lparr>plot_text = Motif_matched (3 / 4), plot_org = (50, 50), plot_color = (0, 255, 0)\<rparr>),
    \<lparr>trigger_threshold = 1 / 2, last_prob = 3 / 4, feature_id = 5, center = Some (50, 50),
      debug = False, time_window_len = 3, time_window = [replicate 28 (0::nat)]\<rparr>,
    [\<lparr>input_q = None, output_q = None, running = True\<rparr>]) \<and>
   \<lparr>trigger_threshold = 1 / 2, last_prob = 3 / 4 :: real, feature_id = 5,
      center = Some (50, 50), debug = False, time_window_len = 3,
      time_window = [replicate 28 (0::nat)]\<rparr> =
   \<lparr>trigger_threshold = 1 / 2, last_prob = 1 / 4, feature_id = 5, center = None,
      debug = False, time_window_len = 3, time_window = []\<rparr>
     \<lparr>time_window := [replicate 28 0], feature_id := 5, last_prob := 3 / 4,
      trigger_threshold := 1 / 2, center := Some (50, 50)\<rparr>"
  using collect_overwrites_last_prob [where w = "[replicate 28 (0::nat)]"
      and self = "\<lparr>trigger_threshold = 1 / 2, last_prob = 1 / 4, feature_id = 5, center = None,
      debug = False, time_window_len = 3, time_window = []\<rparr>"
      and ?t2p.0 = "\<lambda>sk. []" and skeleton = "[] :: (string \<times> unit) list"
      and pool = "[\<lparr>input_q = None, output_q = Some (Some (3 / 4 :: real), 2), running = True\<rparr>]"
      and pass_tw = pass_time_window
      and ?pool1.0 = "[\<lparr>input_q = None, output_q = Some (Some (3 / 4 :: real), 2), running = True\<rparr>]"
      and get_res = get_result and result = "Some (3 / 4)" and collected_id = 2
      and ?pool2.0 = "[\<lparr>input_q = None, output_q = None, running = True\<rparr>]"
      and target_prob = None and decision = True
      and response_body = "\<lparr>plot_text = Motif_matched (3 / 4), plot_org = (50, 50), plot_color = (0, 255, 0)\<rparr>"
      and self' = "\<lparr>trigger_threshold = 1 / 2, last_prob = 3 / 4 :: real, feature_id = 5,
      center = Some (50, 50), debug = False, time_window_len = 3,
      time_window = [replicate 28 (0::nat)]\<rparr>"
      and pool' = "[\<lparr>input_q = None, output_q = None, running = True\<rparr>]"]
  by (simp add: check_skeleton_eq flat_values_def deque_append_def Let_def)

text \<open>
  Claim C4 as stated has the call overwrite a cached id of the last result. The trigger
  has no such attribute: collecting the same probability with id 1 or with id 2 leaves
  the same trigger, whose \<^verbatim>\<open>_feature_id\<close> is still the dispatch counter 5.
\<close>

theorem no_cached_id_counterexample:
  "fst (snd (check_skeleton (\<lambda>sk. []) pass_time_window get_result
     \<lparr>trigger_threshold = 1 / 2, last_prob = 1 / 4, feature_id = 5, center = None,
      debug = False, time_window_len = 3, time_window = []\<rparr>
     [\<lparr>input_q = None, output_q = Some (Some (3 / 4 :: real), 1), running = True\<rparr>]
     ([] :: (string \<times> unit) list) None)) =
   \<lparr>trigger_threshold = 1 / 2, last_prob = 3 / 4, feature_id = 5, center = Some (50, 50),
      debug = False, time_window_len = 3, time_window = [replicate 28 (0::nat)]\<rparr> \<and>
   fst (snd (check_skeleton (\<lambda>sk. []) pass_time_window get_result
     \<lparr>trigger_threshold = 1 / 2, last_prob = 1 / 4, feature_id = 5, center = None,
      debug = False, time_window_len = 3, time_window = []\<rparr>
     [\<lparr>input_q = None, output_q = Some (Some (3 / 4 :: real), 2), running = True\<rparr>]
     ([] :: (string \<times> unit) list) None)) =
   \<lparr>trigger_threshold = 1 / 2, last_prob = 3 / 4, feature_id = 5, center = Some (50, 50),
      debug = False, time_window_len = 3, time_window = [replicate 28 (0::nat)]\<rparr>"
  by (simp add: check_skeleton_eq flat_values_def deque_append_def Let_def)

subsection \<open>The time window and the feature id\<close>


text \<open>The deque is changed only by \<^verbatim>\<open>fill_time_window\<close>, at the start of the call: what
  it holds when \<^verbatim>\<open>pass_time_window\<close> is called is what it holds when the call returns,
  and the call is made exactly when it then has \<^verbatim>\<open>_time_window_len\<close> rows.\<close>

lemma window_at_dispatch:
  "time_window (fst (snd (check_skeleton t2p pass_tw get_res self pool skeleton target_prob))) =
     time_window (fill_time_window t2p self skeleton) \<and>
   feature_id (fst (snd (check_skeleton t2p pass_tw get_res self pool skeleton target_prob))) =
     (if length (time_window (fill_time_window t2p self skeleton)) = time_window_len self
      then feature_id self + 1 else feature_id self)"
  by (simp add: check_skeleton_eq fill_time_window_def Let_def)



text \<open>
  What a worker receives for an item is the content of the deque when the queue's feeder
  thread runs, not when the item was offered. A trigger with a window of one row and a
  pool of one process: the first frame is offered with feature id 1 and stays in the
  input queue; the second frame replaces the row in the deque (its own item, with id 2,
  is dropped, the input queue being full); when the feeder runs after that, the window
  it pickles under id 1 is the row of the second frame.
\<close>

lemma live_window_pickled_after_next_frame:
  "reachable (map snd) classify
     (\<lparr>trigger_threshold = 1 / 2 :: real, last_prob = 0, feature_id = 2,
       center = Some (50, 50), debug = False, time_window_len = 1,
       time_window = [2 # replicate 27 (0::nat)]\<rparr>,
      [\<lparr>input_q = Some (Pickled [2 # replicate 27 0], 1), output_q = None, running = True\<rparr>],
      [None], [(Live_deque, 1), (Live_deque, 2)])"
proof -
  let ?self1 = "\<lparr>trigger_threshold = 1 / 2 :: real, last_prob = 0, feature_id = 1,
       center = Some (50, 50), debug = False, time_window_len = 1,
       time_window = [1 # replicate 27 (0::nat)]\<rparr>"
  let ?self2 = "\<lparr>trigger_threshold = 1 / 2 :: real, last_prob = 0, feature_id = 2,
       center = Some (50, 50), debug = False, time_window_len = 1,
       time_window = [2 # replicate 27 (0::nat)]\<rparr>"
  let ?fed = "\<lparr>input_q = Some (Live_deque :: nat list list window_item, 1 :: int),
       output_q = None :: (real option \<times> int) option, running = True\<rparr>"
  have r0: "reachable (map snd) classify
     (SimbaThresholdBehaviorPoolTrigger 1 (1 / 2) False, initiate_pool 1,
      replicate (nat 1) None, [])"
    by (rule reachable.start)
  have step1: "check_skeleton (map snd) logged_pass logged_get
      (SimbaThresholdBehaviorPoolTrigger 1 (1 / 2) False) (initiate_pool 1, [])
      [(''nose'', 1)] None =
     ((False, \<lparr>plot_text = Current_probability 0, plot_org = (50, 50),
               plot_color = (0, 0, 255)\<rparr>),
      ?self1, [?fed], [(Live_deque, 1)])"
    by (simp add: check_skeleton_eq SimbaThresholdBehaviorPoolTrigger_def initiate_pool_def
          flat_values_def deque_append_def logged_pass_def logged_get_def Let_def)
  have r1: "reachable (map snd) classify (?self1, [?fed], [None], [(Live_deque, 1)])"
    using reachable.frame [OF r0 step1] by simp
  have step2: "check_skeleton (map snd) logged_pass logged_get ?self1 ([?fed], [(Live_deque, 1)])
      [(''nose'', 2)] None =
     ((False, \<lparr>plot_text = Current_probability 0, plot_org = (50, 50),
               plot_color = (0, 0, 255)\<rparr>),
      ?self2, [?fed], [(Live_deque, 1), (Live_deque, 2)])"
    by (simp add: check_skeleton_eq flat_values_def deque_append_def logged_pass_def
          logged_get_def Let_def)
  have r2: "reachable (map snd) classify
      (?self2, [?fed], [None], [(Live_deque, 1), (Live_deque, 2)])"
    using reachable.frame [OF r1 step2] by simp
  show ?thesis
    using reachable.feeder [OF r2, of 0] by (simp add: queue_feed_def)
qed

section \<open>The feature id of a result is never the id of "no result"\<close>

text \<open>Each step of the trigger, the pool and the workers keeps the feature ids in the
  queues between 1 and the trigger's counter.\<close>

lemma ids_within_input:
  "ids_within k p \<Longrightarrow> 1 \<le> n \<Longrightarrow> n \<le> k \<Longrightarrow> ids_within k (p\<lparr>input_q := Some (w, n)\<rparr>)"
  by (simp add: ids_within_def)

lemma ids_within_input_running:
  "ids_within k p \<Longrightarrow> 1 \<le> n \<Longrightarrow> n \<le> k \<Longrightarrow>
   ids_within k (p\<lparr>input_q := Some (w, n), running := True\<rparr>)"
  by (simp add: ids_within_def)

lemma ids_within_output_None: "ids_within k p \<Longrightarrow> ids_within k (p\<lparr>output_q := None\<rparr>)"
  by (simp add: ids_within_def)

lemma pass_time_window_ids:
  "\<forall>p \<in> set pool. ids_within k p \<Longrightarrow> 1 \<le> n \<Longrightarrow> n \<le> k \<Longrightarrow>
   \<forall>p \<in> set (pass_time_window pool (w, n)). ids_within k p"
  by (induction pool) (simp_all add: ids_within_input ids_within_input_running)

lemma get_result_pool_ids:
  "\<forall>p \<in> set pool. ids_within k p \<Longrightarrow> \<forall>p \<in> set (snd (get_result pool)). ids_within k p"
proof (induction pool)
  case Nil
  then show ?case by simp
next
  case (Cons p ps)
  then have "\<forall>p \<in> set (snd (get_result ps)). ids_within k p" and "ids_within k p"
    by simp_all
  with Cons.prems show ?case
    by (cases "output_q p"; cases "get_result ps") (simp_all add: ids_within_output_None)
qed


lemma ids_within_mono: "ids_within k p \<Longrightarrow> k \<le> k' \<Longrightarrow> ids_within k' p"
  by (auto simp: ids_within_def split: option.splits)

lemma held_within_mono: "held_within k h \<Longrightarrow> k \<le> k' \<Longrightarrow> held_within k' h"
  by (auto simp: held_within_def split: option.splits)

lemma get_result_length: "length (snd (get_result pool)) = length pool"
  by (induction pool) (auto split: option.splits prod.splits)

lemma get_result_id:
  "\<forall>p \<in> set pool. ids_within k p \<Longrightarrow>
   (case fst (get_result pool) of (None, n) \<Rightarrow> n = 0 | (Some r, n) \<Rightarrow> 1 \<le> n \<and> n \<le> k)"
proof (induction pool)
  case Nil
  then show ?case by simp
next
  case (Cons p ps)
  show ?case
  proof (cases "output_q p")
    case None
    with Cons show ?thesis by (auto split: prod.splits)
  next
    case (Some x)
    obtain r n where x: "x = (r, n)" by (cases x)
    from Cons.prems have "ids_within k p" by simp
    with Some x have "r \<noteq> None \<and> 1 \<le> n \<and> n \<le> k"
      by (simp add: ids_within_def)
    with Some x show ?thesis by auto
  qed
qed

lemma update_all:
  "\<forall>x \<in> set xs. P x \<Longrightarrow> P y \<Longrightarrow> \<forall>x \<in> set (xs[i := y]). P x"
  using set_update_subset_insert [of xs i y] by auto

lemma upto_snoc: "0 \<le> k \<Longrightarrow> [1..k + 1] = [1..k] @ [k + 1]"
  using upto_rec2 [of 1 "k + 1"] by simp


lemma pool_run_get_ids:
  "ids_within k p \<Longrightarrow> held_within k h \<Longrightarrow> pool_run_get classify (p, h) = (p', h') \<Longrightarrow>
   ids_within k p' \<and> held_within k h'"
proof (cases h)
  case (Some x)
  then show "ids_within k p \<Longrightarrow> held_within k h \<Longrightarrow>
      pool_run_get classify (p, h) = (p', h') \<Longrightarrow> ids_within k p' \<and> held_within k h'"
    by (auto simp: pool_run_get_def)
next
  case None
  assume p: "ids_within k p" and step: "pool_run_get classify (p, h) = (p', h')"
  show "ids_within k p' \<and> held_within k h'"
  proof (cases "input_q p")
    case inp: None
    with None step p show ?thesis
      by (auto simp: pool_run_get_def held_within_def)
  next
    case inp: (Some x)
    obtain item n where x: "x = (item, n)" by (cases x)
    from p inp x have n: "1 \<le> n \<and> n \<le> k"
      by (simp add: ids_within_def)
    show ?thesis
    proof (cases item)
      case Live_deque
      with None inp x step p show ?thesis
        by (auto simp: pool_run_get_def held_within_def)
    next
      case (Pickled w)
      with None inp x step
      have eq: "p' = p\<lparr>input_q := None\<rparr>" "h' = Some (Some (classify w), n)"
        by (auto simp: pool_run_get_def)
      from p have "ids_within k (p\<lparr>input_q := None\<rparr>)"
        by (simp add: ids_within_def)
      with eq n show ?thesis
        by (simp add: held_within_def)
    qed
  qed
qed

lemma queue_feed_ids: "ids_within k p \<Longrightarrow> ids_within k (queue_feed w p)"
proof (cases "input_q p")
  case None
  then show "ids_within k p \<Longrightarrow> ids_within k (queue_feed w p)"
    by (simp add: queue_feed_def)
next
  case (Some x)
  obtain item n where x: "x = (item, n)" by (cases x)
  assume p: "ids_within k p"
  show "ids_within k (queue_feed w p)"
  proof (cases item)
    case Live_deque
    with Some x have "queue_feed w p = p\<lparr>input_q := Some (Pickled w, n)\<rparr>"
      by (simp add: queue_feed_def)
    with p Some x show ?thesis
      by (simp add: ids_within_def)
  next
    case (Pickled w')
    with Some x have "queue_feed w p = p"
      by (simp add: queue_feed_def)
    with p show ?thesis by simp
  qed
qed

lemma pool_run_put_ids:
  "ids_within k p \<Longrightarrow> held_within k h \<Longrightarrow> pool_run_put (p, h) = (p', h') \<Longrightarrow>
   ids_within k p' \<and> held_within k h'"
proof (cases h)
  case None
  then show "ids_within k p \<Longrightarrow> held_within k h \<Longrightarrow>
      pool_run_put (p, h) = (p', h') \<Longrightarrow> ids_within k p' \<and> held_within k h'"
    by (auto simp: pool_run_put_def)
next
  case (Some x)
  assume p: "ids_within k p" and h: "held_within k h" and step: "pool_run_put (p, h) = (p', h')"
  show "ids_within k p' \<and> held_within k h'"
  proof (cases "output_q p")
    case out: (Some y)
    with Some step p h show ?thesis
      by (auto simp: pool_run_put_def)
  next
    case out: None
    obtain r n where x: "x = (r, n)" by (cases x)
    from h Some x have n: "r \<noteq> None \<and> 1 \<le> n \<and> n \<le> k"
      by (simp add: held_within_def)
    from Some out step have eq: "p' = p\<lparr>output_q := Some x\<rparr>" "h' = None"
      by (auto simp: pool_run_put_def)
    from p n x have "ids_within k (p\<lparr>output_q := Some x\<rparr>)"
      by (simp add: ids_within_def)
    with eq show ?thesis
      by (simp add: held_within_def)
  qed
qed

lemma check_skeleton_logged:
  assumes "check_skeleton t2p logged_pass logged_get self (pool, offered) skeleton target_prob =
             (response, self', pool', offered')"
      and "w = deque_append (time_window_len self) (time_window self) (flat_values t2p skeleton)"
  shows "length w = time_window_len self \<Longrightarrow>
           feature_id self' = feature_id self + 1 \<and>
           offered' = offered @ [(Live_deque, feature_id self + 1)] \<and>
           pool' = snd (get_result (pass_time_window pool (Live_deque, feature_id self + 1)))"
    and "length w \<noteq> time_window_len self \<Longrightarrow>
           feature_id self' = feature_id self \<and> offered' = offered \<and>
           pool' = snd (get_result pool)"
  using assms
  by (auto simp: check_skeleton_eq Let_def logged_pass_def logged_get_def split: prod.splits)


lemma frame_invariant:
  assumes step: "check_skeleton t2p logged_pass logged_get self (pool, offered) skeleton
        target_prob = (response, self', pool', offered')"
      and inv: "0 \<le> feature_id self" "map snd offered = [1..feature_id self]"
        "length holding = length pool"
        "\<forall>p \<in> set pool. ids_within (feature_id self) p"
        "\<forall>h \<in> set holding. held_within (feature_id self) h"
  shows "0 \<le> feature_id self' \<and> map snd offered' = [1..feature_id self'] \<and>
      length holding = length pool' \<and>
      (\<forall>p \<in> set pool'. ids_within (feature_id self') p) \<and>
      (\<forall>h \<in> set holding. held_within (feature_id self') h)"
proof -
  let ?w = "deque_append (time_window_len self) (time_window self) (flat_values t2p skeleton)"
  let ?k = "feature_id self"
  show ?thesis
  proof (cases "length ?w = time_window_len self")
    case True
    from check_skeleton_logged(1) [OF step refl True]
    have eq: "feature_id self' = ?k + 1" "offered' = offered @ [(Live_deque, ?k + 1)]"
        "pool' = snd (get_result (pass_time_window pool (Live_deque, ?k + 1)))"
      by simp_all
    have "\<forall>p \<in> set pool. ids_within (?k + 1) p"
    proof
      fix p assume "p \<in> set pool"
      with inv(4) have "ids_within ?k p" by (rule bspec)
      then show "ids_within (?k + 1) p" by (rule ids_within_mono) simp
    qed
    then have "\<forall>p \<in> set (pass_time_window pool (Live_deque, ?k + 1)). ids_within (?k + 1) p"
      using inv(1) by (intro pass_time_window_ids) simp_all
    then have pool': "\<forall>p \<in> set pool'. ids_within (?k + 1) p"
      unfolding eq(3) by (rule get_result_pool_ids)
    have held: "\<forall>h \<in> set holding. held_within (?k + 1) h"
    proof
      fix h assume "h \<in> set holding"
      with inv(5) have "held_within ?k h" by (rule bspec)
      then show "held_within (?k + 1) h" by (rule held_within_mono) simp
    qed
    have len: "length pool' = length pool"
      unfolding eq(3) by (simp add: get_result_length pass_time_window_length)
    have "map snd offered' = [1..?k + 1]"
      using inv(1,2) eq(2) by (simp add: upto_snoc)
    with inv(1,3) eq(1) pool' held len show ?thesis
      by simp
  next
    case False
    from check_skeleton_logged(2) [OF step refl False]
    have eq: "feature_id self' = ?k" "offered' = offered" "pool' = snd (get_result pool)"
      by simp_all
    have "length pool' = length pool"
      unfolding eq(3) by (simp add: get_result_length)
    moreover have "\<forall>p \<in> set pool'. ids_within ?k p"
      unfolding eq(3) using inv(4) by (rule get_result_pool_ids)
    ultimately show ?thesis
      using inv eq(1,2) by simp
  qed
qed


lemma worker_invariant:
  assumes len: "length holding = length pool" and i: "i < length pool"
      and inv: "\<forall>p \<in> set pool. ids_within k p" "\<forall>h \<in> set holding. held_within k h"
      and step: "pool_run_get classify (pool ! i, holding ! i) = (p', h') \<or>
                 pool_run_put (pool ! i, holding ! i) = (p', h')"
  shows "length (holding[i := h']) = length (pool[i := p']) \<and>
      (\<forall>p \<in> set (pool[i := p']). ids_within k p) \<and>
      (\<forall>h \<in> set (holding[i := h']). held_within k h)"
proof -
  from i have "pool ! i \<in> set pool" by (rule nth_mem)
  with inv(1) have at1: "ids_within k (pool ! i)" by (rule bspec)
  from i len have "holding ! i \<in> set holding" by simp
  with inv(2) have at2: "held_within k (holding ! i)" by (rule bspec)
  note at = at1 at2
  from step have "ids_within k p' \<and> held_within k h'"
  proof
    assume "pool_run_get classify (pool ! i, holding ! i) = (p', h')"
    with at show ?thesis by (rule pool_run_get_ids)
  next
    assume "pool_run_put (pool ! i, holding ! i) = (p', h')"
    with at show ?thesis by (rule pool_run_put_ids)
  qed
  then have new: "ids_within k p'" "held_within k h'"
    by simp_all
  have "\<forall>p \<in> set (pool[i := p']). ids_within k p"
    using inv(1) new(1) by (rule update_all)
  moreover have "\<forall>h \<in> set (holding[i := h']). held_within k h"
    using inv(2) new(2) by (rule update_all)
  ultimately show ?thesis
    using len by simp
qed


lemma start_invariant:
  "0 \<le> feature_id (SimbaThresholdBehaviorPoolTrigger TIME_WINDOW prob_threshold dbg) \<and>
   map snd ([] :: ('w \<times> int) list) =
     [1..feature_id (SimbaThresholdBehaviorPoolTrigger TIME_WINDOW prob_threshold dbg)] \<and>
   length (replicate (nat pool_size) (None :: ('r option \<times> int) option)) =
     length (initiate_pool pool_size :: ('w \<times> int, 'r option \<times> int) process_pool) \<and>
   (\<forall>p \<in> set (initiate_pool pool_size :: ('w \<times> int, 'r option \<times> int) process_pool).
      ids_within (feature_id (SimbaThresholdBehaviorPoolTrigger TIME_WINDOW prob_threshold dbg)) p) \<and>
   (\<forall>h \<in> set (replicate (nat pool_size) (None :: ('r option \<times> int) option)).
      held_within (feature_id (SimbaThresholdBehaviorPoolTrigger TIME_WINDOW prob_threshold dbg)) h)"
  by (simp add: SimbaThresholdBehaviorPoolTrigger_def initiate_pool_def ids_within_def
        held_within_def)


lemma reachable_invariant:
  "reachable t2p classify s \<Longrightarrow>
   (case s of (self, pool, holding, offered) \<Rightarrow>
      0 \<le> feature_id self \<and> map snd offered = [1..feature_id self] \<and>
      length holding = length pool \<and>
      (\<forall>p \<in> set pool. ids_within (feature_id self) p) \<and>
      (\<forall>h \<in> set holding. held_within (feature_id self) h))"
proof (induction rule: reachable.induct)
  case (start TIME_WINDOW prob_threshold dbg pool_size)
  show ?case
    using start_invariant [of TIME_WINDOW prob_threshold dbg pool_size] by (simp only: prod.case)
next
  case (frame self pool holding offered skeleton target_prob response self' pool' offered')
  from frame.IH have inv: "0 \<le> feature_id self" "map snd offered = [1..feature_id self]"
      "length holding = length pool"
      "\<forall>p \<in> set pool. ids_within (feature_id self) p"
      "\<forall>h \<in> set holding. held_within (feature_id self) h"
    by simp_all
  from frame_invariant [OF frame.hyps(2) inv] show ?case
    by simp
next
  case (feeder self pool holding offered i)
  from feeder.IH have inv: "0 \<le> feature_id self" "map snd offered = [1..feature_id self]"
      "length holding = length pool"
      "\<forall>p \<in> set pool. ids_within (feature_id self) p"
      "\<forall>h \<in> set holding. held_within (feature_id self) h"
    by simp_all
  from feeder.hyps(2) have "pool ! i \<in> set pool" by (rule nth_mem)
  with inv(4) have "ids_within (feature_id self) (pool ! i)" by (rule bspec)
  then have "ids_within (feature_id self) (queue_feed (time_window self) (pool ! i))"
    by (rule queue_feed_ids)
  with inv(4)
  have "\<forall>p \<in> set (pool[i := queue_feed (time_window self) (pool ! i)]).
      ids_within (feature_id self) p"
    by (rule update_all)
  with inv(1,2,3,5) show ?case
    by simp
next
  case (worker_get self pool holding offered i p' h')
  from worker_get.IH have inv: "0 \<le> feature_id self" "map snd offered = [1..feature_id self]"
      "length holding = length pool"
      "\<forall>p \<in> set pool. ids_within (feature_id self) p"
      "\<forall>h \<in> set holding. held_within (feature_id self) h"
    by simp_all
  from worker_invariant [OF inv(3) worker_get.hyps(2) inv(4,5) disjI1, OF worker_get.hyps(3)]
    inv(1,2) show ?case
    by simp
next
  case (worker_put self pool holding offered i p' h')
  from worker_put.IH have inv: "0 \<le> feature_id self" "map snd offered = [1..feature_id self]"
      "length holding = length pool"
      "\<forall>p \<in> set pool. ids_within (feature_id self) p"
      "\<forall>h \<in> set holding. held_within (feature_id self) h"
    by simp_all
  from worker_invariant [OF inv(3) worker_put.hyps(2) inv(4,5) disjI2, OF worker_put.hyps(3)]
    inv(1,2) show ?case
    by simp
qed

lemma upto_ids: "sorted_wrt (<) [1..k] \<and> (\<forall>n \<in> set [1..k]. 1 \<le> n)"
  by (simp add: sorted_wrt_upto)

text \<open>
  Claim C8. In every state that a new trigger (counter 0), a new pool and the pool's
  workers can reach: the items offered to the pool so far carry the feature ids
  1, 2, ..., up to the trigger's counter, in this order, so they are at least 1 and
  strictly increasing; every item in an input queue, every pair a worker holds and every
  pair in an output queue carries an id between 1 and the counter, and the pairs of the
  workers are results, not \<^verbatim>\<open>None\<close>. So \<^verbatim>\<open>get_result\<close> returns either
  \<^verbatim>\<open>(None, 0)\<close> or a result with an id of at least 1: the id 0 only comes with
  \<^verbatim>\<open>None\<close>.
\<close>

theorem feature_ids_never_sentinel:
  assumes "reachable t2p classify (self, pool, holding, offered)"
  shows "map snd offered = [1..feature_id self] \<and>
         sorted_wrt (<) (map snd offered) \<and>
         (\<forall>n \<in> set (map snd offered). 1 \<le> n) \<and>
         (\<forall>p \<in> set pool. \<forall>w n. input_q p = Some (w, n) \<longrightarrow> 1 \<le> n \<and> n \<le> feature_id self) \<and>
         (\<forall>p \<in> set pool. \<forall>r n. output_q p = Some (r, n) \<longrightarrow>
            r \<noteq> None \<and> 1 \<le> n \<and> n \<le> feature_id self) \<and>
         (\<forall>r n. Some (r, n) \<in> set holding \<longrightarrow> r \<noteq> None \<and> 1 \<le> n \<and> n \<le> feature_id self) \<and>
         (case fst (get_result pool) of
            (None, n) \<Rightarrow> n = 0
          | (Some r, n) \<Rightarrow> 1 \<le> n \<and> n \<le> feature_id self)"
proof -
  from reachable_invariant [OF assms]
  have offered: "map snd offered = [1..feature_id self]"
    and pool: "\<forall>p \<in> set pool. ids_within (feature_id self) p"
    and holding: "\<forall>h \<in> set holding. held_within (feature_id self) h"
    by simp_all
  have inputs: "\<forall>p \<in> set pool. \<forall>w n. input_q p = Some (w, n) \<longrightarrow>
      1 \<le> n \<and> n \<le> feature_id self"
  proof (intro ballI allI impI)
    fix p w n assume "p \<in> set pool" and inp: "input_q p = Some (w, n)"
    with pool have "ids_within (feature_id self) p" by blast
    with inp show "1 \<le> n \<and> n \<le> feature_id self"
      by (simp add: ids_within_def)
  qed
  have outputs: "\<forall>p \<in> set pool. \<forall>r n. output_q p = Some (r, n) \<longrightarrow>
      r \<noteq> None \<and> 1 \<le> n \<and> n \<le> feature_id self"
  proof (intro ballI allI impI)
    fix p r n assume "p \<in> set pool" and out: "output_q p = Some (r, n)"
    with pool have "ids_within (feature_id self) p" by blast
    with out show "r \<noteq> None \<and> 1 \<le> n \<and> n \<le> feature_id self"
      by (simp add: ids_within_def)
  qed
  have held: "\<forall>r n. Some (r, n) \<in> set holding \<longrightarrow>
      r \<noteq> None \<and> 1 \<le> n \<and> n \<le> feature_id self"
  proof (intro allI impI)
    fix r n assume "Some (r, n) \<in> set holding"
    with holding have "held_within (feature_id self) (Some (r, n))" by blast
    then show "r \<noteq> None \<and> 1 \<le> n \<and> n \<le> feature_id self"
      by (simp add: held_within_def)
  qed
  have sorted: "sorted_wrt (<) (map snd offered)"
    and positive: "\<forall>n \<in> set (map snd offered). 1 \<le> n"
    unfolding offered using upto_ids [of "feature_id self"] by blast+
  have collected: "case fst (get_result pool) of
            (None, n) \<Rightarrow> n = 0
          | (Some r, n) \<Rightarrow> 1 \<le> n \<and> n \<le> feature_id self"
    using pool by (rule get_result_id)
  show ?thesis
    by (intro conjI offered sorted positive inputs outputs held collected)
qed

theorem feature_ids_never_sentinel_witness:
  "reachable (\<lambda>sk :: (string \<times> unit) list. [] :: nat list) (\<lambda>w. 3 / 4 :: real)
     (\<lparr>trigger_threshold = 1 / 2, last_prob = 0, feature_id = 1, center = Some (50, 50),
       debug = False, time_window_len = 1, time_window = [replicate 28 0]\<rparr>,
      [\<lparr>input_q = None, output_q = Some (Some (3 / 4), 1), running = True\<rparr>],
      [None], [(Live_deque, 1)]) \<and>
   fst (get_result
      [\<lparr>input_q = None :: (nat list list window_item \<times> int) option,
        output_q = Some (Some (3 / 4 :: real), 1), running = True\<rparr>]) = (Some (3 / 4), 1) \<and>
   map snd [(Live_deque :: nat list list window_item, 1::int)] = [1..1]"
proof -
  let ?t2p = "\<lambda>sk :: (string \<times> unit) list. [] :: nat list"
  let ?clf = "\<lambda>w :: nat list list. 3 / 4 :: real"
  let ?self = "\<lparr>trigger_threshold = 1 / 2 :: real, last_prob = 0, feature_id = 1,
       center = Some (50, 50), debug = False, time_window_len = 1,
       time_window = [replicate 28 (0::nat)]\<rparr>"
  have r0: "reachable ?t2p ?clf
     (SimbaThresholdBehaviorPoolTrigger 1 (1 / 2) False, initiate_pool 1,
      replicate (nat 1) None, [])"
    by (rule reachable.start)
  have step: "check_skeleton ?t2p logged_pass logged_get
      (SimbaThresholdBehaviorPoolTrigger 1 (1 / 2) False) (initiate_pool 1, []) [] None =
     ((False, \<lparr>plot_text = Current_probability 0, plot_org = (50, 50),
               plot_color = (0, 0, 255)\<rparr>),
      ?self,
      [\<lparr>input_q = Some (Live_deque, 1), output_q = None, running = True\<rparr>],
      [(Live_deque, 1)])"
    by (simp add: check_skeleton_eq SimbaThresholdBehaviorPoolTrigger_def initiate_pool_def
          flat_values_def deque_append_def logged_pass_def logged_get_def Let_def)
  have r1: "reachable ?t2p ?clf
     (?self, [\<lparr>input_q = Some (Live_deque, 1), output_q = None, running = True\<rparr>],
      [None], [(Live_deque, 1)])"
    using reachable.frame [OF r0 step] by simp
  have r2: "reachable ?t2p ?clf
     (?self, [\<lparr>input_q = Some (Pickled [replicate 28 0], 1), output_q = None,
               running = True\<rparr>],
      [None], [(Live_deque, 1)])"
    using reachable.feeder [OF r1, of 0] by (simp add: queue_feed_def)
  have r3: "reachable ?t2p ?clf
     (?self, [\<lparr>input_q = None, output_q = None, running = True\<rparr>],
      [Some (Some (3 / 4), 1)], [(Live_deque, 1)])"
    using reachable.worker_get [OF r2, of 0
        "\<lparr>input_q = None, output_q = None, running = True\<rparr>" "Some (Some (3 / 4), 1)"]
    by (simp add: pool_run_get_def)
  have r4: "reachable ?t2p ?clf
     (?self, [\<lparr>input_q = None, output_q = Some (Some (3 / 4), 1), running = True\<rparr>],
      [None], [(Live_deque, 1)])"
    using reachable.worker_put [OF r3, of 0
        "\<lparr>input_q = None, output_q = Some (Some (3 / 4), 1), running = True\<rparr>" None]
    by (simp add: pool_run_put_def)
  from feature_ids_never_sentinel [OF r4] r4 show ?thesis
    by simp
qed

subsection \<open>A finished process in front of a process that was never fed\<close>

text \<open>
  A pool of two and a trigger with a window of one frame: the first frame is offered and
  goes to process 0, whose worker takes it and puts its result. Before the next frame the
  pool holds a finished process at index 0 and a process that was never fed at index 1,
  the shape of the pool in the example of the order of dispatch.
\<close>

lemma finished_before_unfed_reachable:
  "reachable (\<lambda>sk :: (string \<times> unit) list. [] :: nat list) (\<lambda>w. 3 / 4 :: real)
     (\<lparr>trigger_threshold = 1 / 2, last_prob = 0, feature_id = 1, center = Some (50, 50),
       debug = False, time_window_len = 1, time_window = [replicate 28 0]\<rparr>,
      [\<lparr>input_q = None, output_q = Some (Some (3 / 4), 1), running = True\<rparr>,
       \<lparr>input_q = None, output_q = None, running = False\<rparr>],
      [None, None], [(Live_deque, 1)])"
proof -
  let ?t2p = "\<lambda>sk :: (string \<times> unit) list. [] :: nat list"
  let ?clf = "\<lambda>w :: nat list list. 3 / 4 :: real"
  let ?self = "\<lparr>trigger_threshold = 1 / 2 :: real, last_prob = 0, feature_id = 1,
       center = Some (50, 50), debug = False, time_window_len = 1,
       time_window = [replicate 28 (0::nat)]\<rparr>"
  let ?new = "\<lparr>input_q = None :: (nat list list window_item \<times> int) option,
       output_q = None :: (real option \<times> int) option, running = False\<rparr>"
  have r0: "reachable ?t2p ?clf
     (SimbaThresholdBehaviorPoolTrigger 1 (1 / 2) False, initiate_pool 2,
      replicate (nat 2) None, [])"
    by (rule reachable.start)
  have two: "replicate 2 x = [x, x]" for x :: 'a
    by (simp add: numeral_2_eq_2)
  have step: "check_skeleton ?t2p logged_pass logged_get
      (SimbaThresholdBehaviorPoolTrigger 1 (1 / 2) False) (initiate_pool 2, []) [] None =
     ((False, \<lparr>plot_text = Current_probability 0, plot_org = (50, 50),
               plot_color = (0, 0, 255)\<rparr>),
      ?self,
      [\<lparr>input_q = Some (Live_deque, 1), output_q = None, running = True\<rparr>, ?new],
      [(Live_deque, 1)])"
    by (simp add: check_skeleton_eq SimbaThresholdBehaviorPoolTrigger_def initiate_pool_def two
          flat_values_def deque_append_def logged_pass_def logged_get_def Let_def)
  have r1: "reachable ?t2p ?clf
     (?self, [\<lparr>input_q = Some (Live_deque, 1), output_q = None, running = True\<rparr>, ?new],
      [None, None], [(Live_deque, 1)])"
    using reachable.frame [OF r0 step] by (simp add: two)
  have r2: "reachable ?t2p ?clf
     (?self, [\<lparr>input_q = Some (Pickled [replicate 28 0], 1), output_q = None,
               running = True\<rparr>, ?new],
      [None, None], [(Live_deque, 1)])"
    using reachable.feeder [OF r1, of 0] by (simp add: queue_feed_def)
  have r3: "reachable ?t2p ?clf
     (?self, [\<lparr>input_q = None, output_q = None, running = True\<rparr>, ?new],
      [Some (Some (3 / 4), 1), None], [(Live_deque, 1)])"
    using reachable.worker_get [OF r2, of 0
        "\<lparr>input_q = None, output_q = None, running = True\<rparr>" "Some (Some (3 / 4), 1)"]
    by (simp add: pool_run_get_def)
  show ?thesis
    using reachable.worker_put [OF r3, of 0
        "\<lparr>input_q = None, output_q = Some (Some (3 / 4), 1), running = True\<rparr>" None]
    by (simp add: pool_run_put_def)
qed

section \<open>Properties of BsoidClassBehaviorPoolTrigger\<close>

lemma match_trigger_Cons:
  "match_trigger (l # ls) ts result = Inr (result \<or> l \<in> set ts)"
  by (induction ts arbitrary: result) auto

lemma match_trigger_Nil:
  "match_trigger [] ts result = (if ts = [] then Inr result else Inl IndexError)"
  by (cases ts) simp_all

lemma bsoid_check_skeleton_eq:
  assumes "w = deque_appendleft (b_time_window_len self) (b_time_window self) (t2p skeleton)"
      and "pool1 = (if length w = b_time_window_len self
                    then pass_tw pool (Live_deque, b_feature_id self + 1) else pool)"
      and "get_res pool1 = ((clf_result, collected_id), pool2)"
      and "cached = (case clf_result of Some (labels # rest) \<Rightarrow> labels | _ \<Rightarrow> b_last_result self)"
      and "targets = (case target_class of Some t \<Rightarrow> t | None \<Rightarrow> b_trigger self)"
  shows "bsoid_check_skeleton t2p pass_tw get_res self pool skeleton target_class =
     (if clf_result = Some [] then Inl IndexError
      else case match_trigger cached targets False of
         Inl e \<Rightarrow> Inl e
       | Inr result \<Rightarrow>
           Inr ((result,
                 \<lparr>plot_text = (if result then Motif_matched_class cached else Current_Class cached),
                  plot_org = (50, 50),
                  plot_color = (if result then (0, 255, 0) else (0, 0, 255))\<rparr>),
                self\<lparr>b_time_window := w,
                     b_feature_id := (if length w = b_time_window_len self
                                      then b_feature_id self + 1 else b_feature_id self),
                     b_last_result := cached, b_trigger := targets,
                     b_center := Some (50, 50)\<rparr>,
                pool2))"
proof (cases "length w = b_time_window_len self")
  case True
  with assms show ?thesis
    by (simp add: bsoid_check_skeleton_def bsoid_fill_time_window_def Let_def
          split: option.splits list.splits sum.splits)
next
  case False
  with assms show ?thesis
    by (simp add: bsoid_check_skeleton_def bsoid_fill_time_window_def Let_def
          split: option.splits list.splits sum.splits)
qed

text \<open>
  Claim C7. \<open>cached\<close> is \<^verbatim>\<open>_last_result\<close> after this call's \<^verbatim>\<open>get_result\<close> (the first
  label array of a collected result, otherwise what was cached before) and \<open>targets\<close> is
  \<^verbatim>\<open>_trigger\<close> after a given \<^verbatim>\<open>target_class\<close> has replaced it. Every call that returns
  leaves both in the trigger and returns true exactly when the cached label, entry 0 of
  \<open>cached\<close>, is one of the targets. The call returns unless the collected result is an
  empty list, or the cached sequence is empty while there is a target to compare with;
  in both cases an index raises \<^verbatim>\<open>IndexError\<close>.
\<close>

theorem label_decision:
  assumes "w = deque_appendleft (b_time_window_len self) (b_time_window self) (t2p skeleton)"
      and "pool1 = (if length w = b_time_window_len self
                    then pass_tw pool (Live_deque, b_feature_id self + 1) else pool)"
      and "get_res pool1 = ((clf_result, collected_id), pool2)"
      and "cached = (case clf_result of Some (labels # rest) \<Rightarrow> labels | _ \<Rightarrow> b_last_result self)"
      and "targets = (case target_class of Some t \<Rightarrow> t | None \<Rightarrow> b_trigger self)"
  shows "(\<forall>result response_body self' pool'.
            bsoid_check_skeleton t2p pass_tw get_res self pool skeleton target_class =
              Inr ((result, response_body), self', pool') \<longrightarrow>
            b_last_result self' = cached \<and> b_trigger self' = targets \<and>
            result = (case cached of [] \<Rightarrow> False | label # others \<Rightarrow> label \<in> set targets)) \<and>
         ((\<exists>r. bsoid_check_skeleton t2p pass_tw get_res self pool skeleton target_class = Inr r) =
            (clf_result \<noteq> Some [] \<and> (cached \<noteq> [] \<or> targets = [])))"
proof (cases cached)
  case Nil
  show ?thesis
    unfolding bsoid_check_skeleton_eq [where ?t2p.0 = t2p and skeleton = skeleton and pass_tw = pass_tw and get_res = get_res, OF assms] Nil
    by (auto simp: match_trigger_Nil)
next
  case (Cons label others)
  show ?thesis
    unfolding bsoid_check_skeleton_eq [where ?t2p.0 = t2p and skeleton = skeleton and pass_tw = pass_tw and get_res = get_res, OF assms] Cons
    by (simp add: match_trigger_Cons)
qed

theorem label_decision_witness:
  "bsoid_check_skeleton (\<lambda>sk :: unit. 0 :: nat) pass_time_window get_result
     \<lparr>b_trigger = [3, 7], b_last_result = [-1], b_feature_id = 0, b_center = None,
      b_debug = False, b_time_window_len = 2, b_time_window = []\<rparr>
     [\<lparr>input_q = None, output_q = Some (Some [[7, 7], [2]], 4), running = True\<rparr>] () None =
   Inr ((True, \<lparr>plot_text = Motif_matched_class [7, 7], plot_org = (50, 50),
                plot_color = (0, 255, 0)\<rparr>),
        \<lparr>b_trigger = [3, 7], b_last_result = [7, 7], b_feature_id = 0,
         b_center = Some (50, 50), b_debug = False, b_time_window_len = 2,
         b_time_window = [0]\<rparr>,
        [\<lparr>input_q = None, output_q = None, running = True\<rparr>]) \<and>
   (\<exists>r. bsoid_check_skeleton (\<lambda>sk :: unit. 0 :: nat) pass_time_window get_result
     \<lparr>b_trigger = [3, 7], b_last_result = [-1], b_feature_id = 0, b_center = None,
      b_debug = False, b_time_window_len = 2, b_time_window = []\<rparr>
     [\<lparr>input_q = None, output_q = Some (Some [[7, 7], [2]], 4), running = True\<rparr>] () None =
     Inr r)"
  using label_decision [where ?t2p.0 = "\<lambda>sk :: unit. 0 :: nat" and pass_tw = pass_time_window
        and get_res = get_result
        and self = "\<lparr>b_trigger = [3, 7], b_last_result = [-1], b_feature_id = 0, b_center = None,
      b_debug = False, b_time_window_len = 2, b_time_window = []\<rparr>"
        and pool = "[\<lparr>input_q = None, output_q = Some (Some [[7, 7], [2]], 4), running = True\<rparr>]"
        and skeleton = "()" and target_class = None
        and clf_result = "Some [[7, 7], [2]]" and collected_id = 4
        and ?pool2.0 = "[\<lparr>input_q = None, output_q = None, running = True\<rparr>]",
        OF refl refl _ refl refl]
  by (simp add: deque_appendleft_def bsoid_check_skeleton_def bsoid_fill_time_window_def Let_def)

section \<open>Properties of the posture triggers\<close>

subsection \<open>The debug branch of the head direction triggers\<close>

lemma headdirection_returns:
  assumes "\<not> hd_debug self" and "skeleton ''neck'' = Some (neck_x, neck_y)"
      and "skeleton ''nose'' = Some (nose_x, nose_y)"
  shows "headdirection_check_skeleton abv self skeleton =
     Inr (\<bar>snd (abv neck_x neck_y nose_x nose_y (fst (hd_point self)) (snd (hd_point self)))\<bar>
            \<le> hd_angle self,
          Angle \<bar>snd (abv neck_x neck_y nose_x nose_y (fst (hd_point self)) (snd (hd_point self)))\<bar>)"
  using assms
  by (simp add: headdirection_check_skeleton_def Let_def split: prod.splits)

lemma headdirection_debug_raises:
  "hd_debug self \<Longrightarrow> headdirection_check_skeleton abv self skeleton \<noteq> Inr response"
  by (simp add: headdirection_check_skeleton_def Let_def split: option.splits prod.splits)

lemma headdirection_debug_AttributeError:
  assumes "hd_debug self" and "skeleton ''neck'' = Some neck" and "skeleton ''nose'' = Some nose"
  shows "headdirection_check_skeleton abv self skeleton = Inl AttributeError"
  using assms
  by (simp add: headdirection_check_skeleton_def Let_def split: prod.splits)

lemma ego_headdirection_debug_raises:
  "ego_debug self \<Longrightarrow> ego_headdirection_check_skeleton abv self skeleton \<noteq> Inr response"
  by (simp add: ego_headdirection_check_skeleton_def Let_def
        split: option.splits prod.splits)

lemma ego_headdirection_returns:
  assumes "\<not> ego_debug self" and "skeleton ''tailroot'' = Some (tailroot_x, tailroot_y)"
      and "skeleton ''neck'' = Some (neck_x, neck_y)"
      and "skeleton ''nose'' = Some (nose_x, nose_y)"
      and "abv tailroot_x tailroot_y neck_x neck_y nose_x nose_y = (ret_head_dir, angle)"
  shows "(\<exists>response. ego_headdirection_check_skeleton abv self skeleton = Inr response) =
     (180 - \<bar>angle\<bar> \<le> ego_angle self \<longrightarrow>
        ego_head_dir self = ret_head_dir \<or> ego_head_dir self = ''both'')"
  using assms
  by (auto simp: ego_headdirection_check_skeleton_def Let_def)

text \<open>
  Claim C9 says that both triggers return for every skeleton with the joints they read
  when \<^verbatim>\<open>debug\<close> is false, and reach the read of \<^verbatim>\<open>_end_point\<close> when it is true. For
  \<^verbatim>\<open>HeaddirectionTrigger\<close> both hold (the lemmas above). \<^verbatim>\<open>EgoHeaddirectionTrigger\<close>
  with \<^verbatim>\<open>head_dir = "left"\<close> and an animal that turns its head to the right within the
  angle leaves \<^verbatim>\<open>result\<close> unassigned: the call raises \<^verbatim>\<open>UnboundLocalError\<close> at
  \<^verbatim>\<open>color = (0, 255, 0) if result else (0, 0, 255)\<close>, with \<^verbatim>\<open>debug\<close> false and, before
  the debug branch is reached, with \<^verbatim>\<open>debug\<close> true.
\<close>

theorem ego_headdirection_unbound_result:
  "ego_headdirection_check_skeleton (\<lambda>xa ya xb yb xc yc. (''right'', -170))
     (EgoHeaddirectionTrigger 45 ''left'' False)
     [''tailroot'' \<mapsto> (0, 0), ''neck'' \<mapsto> (10, 0), ''nose'' \<mapsto> (20, 2)] =
   Inl UnboundLocalError \<and>
   ego_headdirection_check_skeleton (\<lambda>xa ya xb yb xc yc. (''right'', -170))
     (EgoHeaddirectionTrigger 45 ''left'' True)
     [''tailroot'' \<mapsto> (0, 0), ''neck'' \<mapsto> (10, 0), ''nose'' \<mapsto> (20, 2)] =
   Inl UnboundLocalError"
  by (simp add: ego_headdirection_check_skeleton_def EgoHeaddirectionTrigger_def)

subsection \<open>OutsideTrigger against RegionTrigger\<close>

lemma RegionTrigger_roi_type:
  "RegionTrigger EllipseROI RectangleROI region_type roi_center radius parts dbg = Inr self \<Longrightarrow>
   roi_type self = ''circle'' \<or> roi_type self = ''square''"
  by (auto simp: RegionTrigger_def Let_def split: if_splits)

lemma region_check_skeleton_returns:
  assumes "roi_type self = ''circle'' \<or> roi_type self = ''square''"
      and "case bodyparts self of Joint part \<Rightarrow> part \<in> dom skeleton
           | Joints parts \<Rightarrow> set parts \<subseteq> dom skeleton"
  shows "\<exists>response. region_check_skeleton self skeleton = Inr response"
proof -
  have joints: "set parts \<subseteq> dom skeleton \<Longrightarrow>
      \<exists>results. check_joints (region_of_interest self) skeleton parts = Inr results" for parts
    by (induction parts) auto
  show ?thesis
  proof (cases "bodyparts self")
    case (Joint part)
    with assms show ?thesis
      by (auto simp: region_check_skeleton_def Let_def split: prod.splits)
  next
    case (Joints parts)
    with assms(2) joints [of parts] obtain results where
      "check_joints (region_of_interest self) skeleton parts = Inr results"
      by auto
    with Joints assms(1) show ?thesis
      by (auto simp: region_check_skeleton_def Let_def split: prod.splits)
  qed
qed

lemma lower_Circle: "lower ''Circle'' = ''circle''"
  by code_simp

text \<open>
  Claim C10. The two constructors, given the same arguments, build the same object or
  raise the same error. On that object and any skeleton, \<^verbatim>\<open>OutsideTrigger.check_skeleton\<close>
  returns the negation of the boolean \<^verbatim>\<open>RegionTrigger.check_skeleton\<close> returns, with
  the same response body, and raises what it raises. When the skeleton has every joint
  the trigger reads, \<^verbatim>\<open>RegionTrigger.check_skeleton\<close> returns.
\<close>

theorem outside_negates_region:
  assumes "RegionTrigger EllipseROI RectangleROI region_type roi_center radius parts dbg =
             Inr self"
  shows "OutsideTrigger EllipseROI RectangleROI region_type roi_center radius parts dbg =
           Inr self \<and>
         (\<forall>result response_body. region_check_skeleton self skeleton = Inr (result, response_body) \<longrightarrow>
            outside_check_skeleton self skeleton = Inr (\<not> result, response_body)) \<and>
         (\<forall>e. region_check_skeleton self skeleton = Inl e \<longrightarrow>
            outside_check_skeleton self skeleton = Inl e) \<and>
         ((case parts of Joint part \<Rightarrow> part \<in> dom skeleton
           | Joints ps \<Rightarrow> set ps \<subseteq> dom skeleton) \<longrightarrow>
            (\<exists>response. region_check_skeleton self skeleton = Inr response))"
proof -
  from assms have "bodyparts self = parts"
    by (auto simp: RegionTrigger_def Let_def split: if_splits)
  with region_check_skeleton_returns [OF RegionTrigger_roi_type [OF assms], of skeleton]
  have "(case parts of Joint part \<Rightarrow> part \<in> dom skeleton
           | Joints ps \<Rightarrow> set ps \<subseteq> dom skeleton) \<longrightarrow>
            (\<exists>response. region_check_skeleton self skeleton = Inr response)"
    by simp
  with assms show ?thesis
    by (simp add: OutsideTrigger_def outside_check_skeleton_def)
qed

theorem outside_negates_region_witness:
  "(let box = (\<lambda>c rx ry.
          \<lparr>check_point = (\<lambda>x y. \<bar>x - fst c\<bar> \<le> rx \<and> \<bar>y - snd c\<bar> \<le> ry),
           get_center = c, get_x_radius = rx,
           get_box = (fst c - rx, snd c - ry, fst c + rx, snd c + ry)\<rparr>);
        self = \<lparr>roi_type = ''circle'', region_of_interest = box (0, 0) 5 5,
                bodyparts = Joints [''neck'', ''nose''], region_debug = False\<rparr>;
        skeleton = [''neck'' \<mapsto> (9, 9), ''nose'' \<mapsto> (1, 2)]
    in RegionTrigger box box ''Circle'' (0, 0) 5 (Joints [''neck'', ''nose'']) False = Inr self \<and>
       OutsideTrigger box box ''Circle'' (0, 0) 5 (Joints [''neck'', ''nose'']) False = Inr self \<and>
       region_check_skeleton self skeleton = Inr (True, Circle_plot (0, 0) 5 (0, 255, 0)) \<and>
       outside_check_skeleton self skeleton = Inr (False, Circle_plot (0, 0) 5 (0, 255, 0)))"
proof -
  let ?box = "\<lambda>(c :: real \<times> real) rx ry.
          \<lparr>check_point = (\<lambda>x y. \<bar>x - fst c\<bar> \<le> rx \<and> \<bar>y - snd c\<bar> \<le> ry),
           get_center = c, get_x_radius = rx,
           get_box = (fst c - rx, snd c - ry, fst c + rx, snd c + ry)\<rparr>"
  let ?self = "\<lparr>roi_type = ''circle'', region_of_interest = ?box (0, 0) 5 5,
                bodyparts = Joints [''neck'', ''nose''], region_debug = False\<rparr>"
  let ?skeleton = "[''neck'' \<mapsto> (9, 9), ''nose'' \<mapsto> (1 :: real, 2 :: real)]"
  have built: "RegionTrigger ?box ?box ''Circle'' (0, 0) 5 (Joints [''neck'', ''nose'']) False =
      Inr ?self"
    by (simp add: RegionTrigger_def lower_Circle)
  have region: "region_check_skeleton ?self ?skeleton = Inr (True, Circle_plot (0, 0) 5 (0, 255, 0))"
    by (simp add: region_check_skeleton_def py_int_def)
  from outside_negates_region [OF built, of ?skeleton] built region show ?thesis
    by (simp add: Let_def)
qed

end
